theory Spec2Isabelle
  imports Main "HOL-Library.Word" "HOL-Library.AList"
begin

unbundle bit_operations_syntax

section \<open>Errors\<close>

text \<open>
  Go errors as values. \<open>Errno\<close> is a \<open>syscall.Errno\<close> (a \<open>uintptr\<close>), \<open>Wrap e msg\<close> is
  \<open>errors.Wrap(e, msg)\<close>, \<open>NetError\<close> is an error of package \<open>net\<close> carrying its text.
\<close>

datatype error =
    errNoActiveBackend
  | Errno nat
  | NetError string
  | Wrap error string

section \<open>pkg/epoll: the readiness notifier\<close>

text \<open>
  The errno constants of \<open>golang.org/x/sys/unix\<close> on linux, which \<open>temporaryErr\<close>
  compares against. \<open>EWOULDBLOCK\<close> and \<open>EAGAIN\<close> are the same number there.
\<close>

definition EINTR :: nat where "EINTR = 4"
definition EAGAIN :: nat where "EAGAIN = 11"
definition EWOULDBLOCK :: nat where "EWOULDBLOCK = 11"
definition ENFILE :: nat where "ENFILE = 23"
definition EMFILE :: nat where "EMFILE = 24"
definition ETIMEDOUT :: nat where "ETIMEDOUT = 110"

text \<open>The event bits of \<open>unix.EpollEvent.Events\<close> (a \<open>uint32\<close>).\<close>

definition EPOLLIN :: "32 word" where "EPOLLIN = 0x1"
definition EPOLLHUP :: "32 word" where "EPOLLHUP = 0x10"
definition EPOLLRDHUP :: "32 word" where "EPOLLRDHUP = 0x2000"

record EpollEvent =
  Events :: "32 word"
  Fd :: "32 word"

definition temporaryErr :: "nat \<Rightarrow> bool" where
  "temporaryErr err \<longleftrightarrow>
     err = EINTR \<or> err = EMFILE \<or> err = ENFILE \<or>
     err = EAGAIN \<or> err = EWOULDBLOCK \<or> err = ETIMEDOUT"

text \<open>
  What the kernel answers to one \<open>epoll_wait\<close> call: an errno, or the events that are
  ready at that moment. \<open>EpollWait\<close> is the system call as the wrapper sees it: it is
  given the buffer \<open>events\<close>, writes at most \<open>len(events)\<close> records to its front and
  returns their number, or returns \<open>-1\<close> and the errno.
\<close>

datatype kernel_answer = Failed nat | Ready "EpollEvent list"

definition EpollWait ::
  "kernel_answer \<Rightarrow> EpollEvent list \<Rightarrow> EpollEvent list \<times> int \<times> nat option" where
  "EpollWait a events =
     (case a of
        Failed e \<Rightarrow> (events, - 1, Some e)
      | Ready evs \<Rightarrow>
          (let n = min (length evs) (length events)
           in (take n evs @ drop n events, int n, None)))"

text \<open>
  \<open>Epoll.Wait\<close>. The \<open>for\<close> loop calls the kernel until the answer is not a temporary
  error. The kernel's successive answers are the list; while they last the loop runs, and
  a loop that has seen nothing but temporary errors has not returned: \<open>None\<close>.
\<close>

fun Wait_loop :: "kernel_answer list \<Rightarrow> EpollEvent list \<Rightarrow> (error + EpollEvent list) option" where
  "Wait_loop [] events = None"
| "Wait_loop (a # as) events =
     (case EpollWait a events of
        (events', n, err) \<Rightarrow>
          (case err of
             Some e \<Rightarrow>
               if temporaryErr e then Wait_loop as events'
               else Some (Inl (Wrap (Errno e) ''EpollWait()''))
           | None \<Rightarrow> Some (Inr (take (nat n) events'))))"

definition Wait :: "kernel_answer list \<Rightarrow> (error + EpollEvent list) option" where
  "Wait as = Wait_loop as (replicate 100 \<lparr>Events = 0, Fd = 0\<rparr>)"

section \<open>service: cancellation\<close>

text \<open>
  A \<open>context.Context\<close> as its derivation: \<open>Background\<close>, or the child that
  \<open>context.WithCancel\<close> (or \<open>signal.NotifyContext\<close>) derives from a parent. The program
  derives at most one child from any context, so the derivation identifies the context.
  The set of contexts whose cancel function has been called (or whose signal has arrived)
  is part of the state; \<open>ctx_Done\<close> says whether \<open>ctx.Done()\<close> is closed: a context is
  done when it or one of its ancestors has been cancelled.
\<close>

datatype Context = Background | WithCancel Context

fun ctx_Done :: "Context set \<Rightarrow> Context \<Rightarrow> bool" where
  "ctx_Done cs Background = False"
| "ctx_Done cs (WithCancel parent) = (WithCancel parent \<in> cs \<or> ctx_Done cs parent)"

section \<open>service: the heap\<close>

text \<open>
  Pointers are indices into the heap of their type. The two \<open>connManager\<close>s are the
  \<open>Frontend\<close> and the \<open>Backend\<close> with that index.
\<close>

datatype mgr = Frontend nat | Backend nat

text \<open>
  A \<open>net.Conn\<close> of the standard library: its descriptor, what its \<open>Close\<close> returns, and
  how many times its \<open>Close\<close> has been called.
\<close>

record netConn =
  Sysfd :: int
  Close_result :: "error option"
  Close_calls :: nat

record Conn =
  netconn :: nat
  fd :: int
  closed :: bool
  manager :: mgr

text \<open>
  A \<open>sync.Once\<close>: whether it is done; and, as bookkeeping for the properties, how many
  times \<open>Do\<close> was called on it and how many times \<open>Do\<close> ran its argument.
\<close>

record Once =
  once_done :: bool
  Do_calls :: nat
  Do_runs :: nat

record PipedConn =
  conn :: nat
  pipeTo :: nat
  finalizeOnce :: nat
  underIO :: bool

text \<open>
  The fields that \<open>frontend\<close> and \<open>backend\<close> have in common and that the methods of
  \<open>connManager\<close> work on: the context, the connections map (a Go map, here an
  association list with one entry for a key, so that \<open>len\<close> is its length) and the
  epoll instance, as the set of descriptors that the manager has added to it with \<open>Add\<close>
  and not deleted with \<open>Del\<close> (the callers drop the errors of both). The mutex is left
  out: every method here runs as one step. So are the logger, the buffer pool, the dialer
  and the listener, which no property below reads.
\<close>

record connManager =
  ctx :: Context
  connections :: "(int \<times> nat) list"
  epoller :: "int set"

record backend =
  addr :: string
  active :: bool

record application =
  name :: string
  bnds :: "nat list"

record frontend =
  app :: application
  port :: int

text \<open>
  The goroutines that \<open>serveEvent\<close> starts with \<open>go\<close>: the one that calls
  \<open>conn.finalizeOnce.Do\<close> with \<open>conn.finalize\<close>, and \<open>serveConn(conn)\<close> of a manager.
\<close>

datatype goroutine =
    go_finalizeOnce nat
  | go_serveConn mgr nat

text \<open>
  The state of the process: the cancelled contexts, the heaps with the next free index of
  each, the goroutines started so far, and the lines "changed active status" logged so
  far (backend and new value).
\<close>

record state =
  cancelled :: "Context set"
  netConns :: "nat \<Rightarrow> netConn"
  Conns :: "nat \<Rightarrow> Conn"
  Onces :: "nat \<Rightarrow> Once"
  PipedConns :: "nat \<Rightarrow> PipedConn"
  managers :: "mgr \<Rightarrow> connManager"
  backends :: "nat \<Rightarrow> backend"
  frontends :: "nat \<Rightarrow> frontend"
  goroutines :: "goroutine list"
  status_log :: "(nat \<times> bool) list"
  next_netConn :: nat
  next_Conn :: nat
  next_Once :: nat
  next_PipedConn :: nat
  next_backend :: nat
  next_frontend :: nat

definition cancel :: "Context \<Rightarrow> state \<Rightarrow> state" where
  "cancel c s = s\<lparr>cancelled := insert c (cancelled s)\<rparr>"

definition go :: "goroutine \<Rightarrow> state \<Rightarrow> state" where
  "go g s = s\<lparr>goroutines := goroutines s @ [g]\<rparr>"

section \<open>service: Conn and PipedConn\<close>

text \<open>The \<open>Close\<close> of a \<open>net.Conn\<close>.\<close>

definition net_Close :: "nat \<Rightarrow> state \<Rightarrow> error option \<times> state" where
  "net_Close nc s =
     (Close_result (netConns s nc),
      s\<lparr>netConns := (netConns s)
          (nc := (netConns s nc)\<lparr>Close_calls := Suc (Close_calls (netConns s nc))\<rparr>)\<rparr>)"

text \<open>A net.Conn that \<open>AcceptTCP\<close> or \<open>DialContext\<close> has just returned enters the heap.\<close>

definition new_netConn :: "netConn \<Rightarrow> state \<Rightarrow> nat \<times> state" where
  "new_netConn v s =
     (next_netConn s,
      s\<lparr>netConns := (netConns s)(next_netConn s := v), next_netConn := Suc (next_netConn s)\<rparr>)"

definition fdFromConn :: "nat \<Rightarrow> state \<Rightarrow> int" where
  "fdFromConn nc s = Sysfd (netConns s nc)"

definition newConn :: "nat \<Rightarrow> mgr \<Rightarrow> state \<Rightarrow> nat \<times> state" where
  "newConn nc m s =
     (next_Conn s,
      s\<lparr>Conns := (Conns s)
          (next_Conn s := \<lparr>netconn = nc, fd = fdFromConn nc s, closed = False, manager = m\<rparr>),
        next_Conn := Suc (next_Conn s)\<rparr>)"

text \<open>\<open>Conn.Close\<close>: the compare-and-swap of \<open>closed\<close> from false to true guards the close.\<close>

definition Close :: "nat \<Rightarrow> state \<Rightarrow> error option \<times> state" where
  "Close c s =
     (if closed (Conns s c) = False
      then net_Close (netconn (Conns s c)) (s\<lparr>Conns := (Conns s)(c := (Conns s c)\<lparr>closed := True\<rparr>)\<rparr>)
      else (None, s))"

definition new_Once :: "state \<Rightarrow> nat \<times> state" where
  "new_Once s =
     (next_Once s,
      s\<lparr>Onces := (Onces s)(next_Once s := \<lparr>once_done = False, Do_calls = 0, Do_runs = 0\<rparr>),
        next_Once := Suc (next_Once s)\<rparr>)"

text \<open>\<open>Once.Do(f)\<close>: \<open>f\<close> runs if the once is not done, and then it is done.\<close>

definition Do :: "nat \<Rightarrow> (state \<Rightarrow> state) \<Rightarrow> state \<Rightarrow> state" where
  "Do once f s =
     (let s0 = s\<lparr>Onces := (Onces s)(once := (Onces s once)\<lparr>Do_calls := Suc (Do_calls (Onces s once))\<rparr>)\<rparr>
      in if once_done (Onces s0 once) then s0
         else (let s1 = f s0
               in s1\<lparr>Onces := (Onces s1)
                     (once := (Onces s1 once)\<lparr>once_done := True, Do_runs := Suc (Do_runs (Onces s1 once))\<rparr>)\<rparr>))"

definition newPiped :: "nat \<Rightarrow> nat \<Rightarrow> nat \<Rightarrow> state \<Rightarrow> nat \<times> state" where
  "newPiped c out once s =
     (next_PipedConn s,
      s\<lparr>PipedConns := (PipedConns s)
          (next_PipedConn s := \<lparr>conn = c, pipeTo = out, finalizeOnce = once, underIO = False\<rparr>),
        next_PipedConn := Suc (next_PipedConn s)\<rparr>)"

text \<open>\<open>PipedConn.setUnderIO\<close>: compare-and-swap from \<open>!underIO\<close> to \<open>underIO\<close>.\<close>

definition setUnderIO :: "nat \<Rightarrow> bool \<Rightarrow> state \<Rightarrow> bool \<times> state" where
  "setUnderIO p v s =
     (if underIO (PipedConns s p) = (\<not> v)
      then (True, s\<lparr>PipedConns := (PipedConns s)(p := (PipedConns s p)\<lparr>underIO := v\<rparr>)\<rparr>)
      else (False, s))"

section \<open>service: the connection managers\<close>

text \<open>
  \<open>frontend.addConn\<close> and \<open>backend.addConn\<close> are the same statements on the same
  fields, and so are the two \<open>delConn\<close>, \<open>getConnByFD\<close>, \<open>serveEvent\<close> and
  \<open>serveConn\<close>; each pair is one function of the manager here. In \<open>addConn\<close> the
  \<open>select\<close> closes the connection when the context is done, and the statements after
  the \<open>select\<close> run in either case.
\<close>

definition addConn :: "mgr \<Rightarrow> nat \<Rightarrow> state \<Rightarrow> state" where
  "addConn m p s =
     (let s1 = (if ctx_Done (cancelled s) (ctx (managers s m))
                then snd (Close (conn (PipedConns s p)) s) else s);
          d = fd (Conns s1 (conn (PipedConns s1 p)))
      in s1\<lparr>managers := (managers s1)
            (m := (managers s1 m)
               \<lparr>connections := AList.update d p (connections (managers s1 m)),
                epoller := insert d (epoller (managers s1 m))\<rparr>)\<rparr>)"

definition delConn :: "mgr \<Rightarrow> int \<Rightarrow> state \<Rightarrow> state" where
  "delConn m d s =
     (if ctx_Done (cancelled s) (ctx (managers s m)) then s
      else s\<lparr>managers := (managers s)
             (m := (managers s m)
                \<lparr>connections := AList.delete d (connections (managers s m)),
                 epoller := epoller (managers s m) - {d}\<rparr>)\<rparr>)"

definition getConnCount :: "nat \<Rightarrow> state \<Rightarrow> int" where
  "getConnCount b s = int (length (connections (managers s (Backend b))))"

definition getConnByFD :: "mgr \<Rightarrow> int \<Rightarrow> state \<Rightarrow> nat option" where
  "getConnByFD m d s = map_of (connections (managers s m)) d"

text \<open>\<open>PipedConn.finalize\<close>.\<close>

definition finalize :: "nat \<Rightarrow> state \<Rightarrow> state" where
  "finalize p s =
     (let s1 = snd (setUnderIO p False s);
          s2 = snd (Close (conn (PipedConns s1 p)) s1);
          s3 = snd (Close (pipeTo (PipedConns s2 p)) s2);
          out = Conns s3 (pipeTo (PipedConns s3 p));
          s4 = delConn (manager out) (fd out) s3;
          c = Conns s4 (conn (PipedConns s4 p))
      in delConn (manager c) (fd c) s4)"

text \<open>
  \<open>serveEvent\<close>. \<open>int(event.Fd)\<close> reads the \<open>int32\<close> field as a signed number.
\<close>

definition serveEvent :: "mgr \<Rightarrow> EpollEvent \<Rightarrow> state \<Rightarrow> state" where
  "serveEvent m event s =
     (case getConnByFD m (sint (Fd event)) s of
        None \<Rightarrow> s
      | Some p \<Rightarrow>
          (case setUnderIO p True s of
             (changed, s1) \<Rightarrow>
               if \<not> changed then s1
               else if Events event AND (EPOLLHUP OR EPOLLRDHUP) \<noteq> 0
               then go (go_finalizeOnce p) s1
               else if Events event AND EPOLLIN \<noteq> 0
               then go (go_serveConn m p) s1
               else s1))"

text \<open>The \<open>for _, event := range events\<close> of \<open>listenEpoll\<close>.\<close>

definition serveEvents :: "mgr \<Rightarrow> EpollEvent list \<Rightarrow> state \<Rightarrow> state" where
  "serveEvents m events s = fold (serveEvent m) events s"

text \<open>
  \<open>serveConn\<close>. What \<open>io.CopyBuffer\<close> returns (the number of bytes written and the
  error) is the environment's, an argument here.
\<close>

definition serveConn :: "mgr \<Rightarrow> nat \<Rightarrow> int \<times> error option \<Rightarrow> state \<Rightarrow> state" where
  "serveConn m p copied s =
     (case copied of
        (n, err) \<Rightarrow>
          (let s1 = snd (setUnderIO p False s)
           in if err \<noteq> None \<or> n = 0
              then Do (finalizeOnce (PipedConns s1 p)) (finalize p) s1
              else s1))"

text \<open>The body of a goroutine that \<open>serveEvent\<close> has started.\<close>

fun run_goroutine :: "goroutine \<Rightarrow> int \<times> error option \<Rightarrow> state \<Rightarrow> state" where
  "run_goroutine (go_finalizeOnce p) copied s = Do (finalizeOnce (PipedConns s p)) (finalize p) s"
| "run_goroutine (go_serveConn m p) copied s = serveConn m p copied s"

section \<open>service: backend\<close>

definition setActive :: "nat \<Rightarrow> bool \<Rightarrow> state \<Rightarrow> state" where
  "setActive b t s =
     (if active (backends s b) = (\<not> t)
      then s\<lparr>backends := (backends s)(b := (backends s b)\<lparr>active := t\<rparr>),
             status_log := status_log s @ [(b, t)]\<rparr>
      else s)"

text \<open>
  One health check of \<open>runHealthcheck\<close> (the one right after start and the one of every
  tick are the same statements). What \<open>DialContext\<close> returns is the environment's.
\<close>

definition healthcheck :: "nat \<Rightarrow> error + netConn \<Rightarrow> state \<Rightarrow> state" where
  "healthcheck b dialled s =
     (case dialled of
        Inl err \<Rightarrow> setActive b False s
      | Inr v \<Rightarrow>
          (case new_netConn v s of
             (nc, s1) \<Rightarrow> setActive b True (snd (net_Close nc s1))))"

definition createConn :: "nat \<Rightarrow> error + netConn \<Rightarrow> state \<Rightarrow> (error + nat) \<times> state" where
  "createConn b dialled s =
     (case dialled of
        Inl err \<Rightarrow> (Inl (Wrap err ''Dial()''), setActive b False s)
      | Inr v \<Rightarrow> (case new_netConn v s of (nc, s1) \<Rightarrow> (Inr nc, s1)))"

section \<open>service: application\<close>

text \<open>
  \<open>nextBackend\<close>: the loop over \<open>a.bnds\<close> with its two variables \<open>next\<close> (nil at first)
  and \<open>minConnCount\<close>.
\<close>

fun nextBackend_loop :: "nat list \<Rightarrow> nat option \<Rightarrow> int \<Rightarrow> state \<Rightarrow> nat option" where
  "nextBackend_loop [] next minConnCount s = next"
| "nextBackend_loop (bnd # rest) next minConnCount s =
     (if active (backends s bnd)
      then (case next of
              None \<Rightarrow> nextBackend_loop rest (Some bnd) (getConnCount bnd s) s
            | Some _ \<Rightarrow>
                if getConnCount bnd s < minConnCount
                then nextBackend_loop rest (Some bnd) minConnCount s
                else nextBackend_loop rest next minConnCount s)
      else nextBackend_loop rest next minConnCount s)"

definition nextBackend :: "application \<Rightarrow> state \<Rightarrow> error + nat" where
  "nextBackend a s =
     (case nextBackend_loop (bnds a) None 0 s of
        None \<Rightarrow> Inl errNoActiveBackend
      | Some bnd \<Rightarrow> Inr bnd)"

definition createRemoteConnection ::
  "application \<Rightarrow> error + netConn \<Rightarrow> state \<Rightarrow> (error + nat) \<times> state" where
  "createRemoteConnection a dialled s =
     (case nextBackend a s of
        Inl err \<Rightarrow> (Inl (Wrap err ''unable to get next backend''), s)
      | Inr b \<Rightarrow>
          (case createConn b dialled s of
             (Inl err, s1) \<Rightarrow> (Inl (Wrap err ''unable to connect to remote backend''), s1)
           | (Inr rNetConn, s1) \<Rightarrow>
               (case newConn rNetConn (Backend b) s1 of (rConn, s2) \<Rightarrow> (Inr rConn, s2))))"

section \<open>service: frontend\<close>

definition handleNewConnection :: "nat \<Rightarrow> nat \<Rightarrow> error + netConn \<Rightarrow> state \<Rightarrow> state" where
  "handleNewConnection f nc dialled s =
     (case createRemoteConnection (app (frontends s f)) dialled s of
        (Inl err, s1) \<Rightarrow> snd (net_Close nc s1)
      | (Inr rConn, s1) \<Rightarrow>
          (case newConn nc (Frontend f) s1 of
             (c, s2) \<Rightarrow>
               (case new_Once s2 of
                  (once, s3) \<Rightarrow>
                    (case newPiped c rConn once s3 of
                       (tunneledConn, s4) \<Rightarrow>
                         (let s5 = addConn (manager (Conns s4 (conn (PipedConns s4 tunneledConn))))
                                     tunneledConn s4
                          in (case newPiped rConn c once s5 of
                                (rTunneledConn, s6) \<Rightarrow>
                                  addConn (manager (Conns s6 (conn (PipedConns s6 rTunneledConn))))
                                    rTunneledConn s6))))))"

section \<open>service: the proxy\<close>

record ConfigApp =
  Name :: string
  Ports :: "int list"
  Targets :: "string list"

record ProxyConfig =
  Apps :: "ConfigApp list"

text \<open>
  The \<open>Proxy\<close> struct. Its \<open>cancel\<close> is the cancel function of its \<open>ctx\<close>:
  \<open>cancel (proxy_ctx p)\<close>. \<open>proxy_fnds\<close> and \<open>proxy_bnds\<close> hold pointers.
\<close>

record Proxy =
  proxy_ctx :: Context
  proxy_apps :: "application list"
  proxy_fnds :: "nat list"
  proxy_bnds :: "nat list"

text \<open>
  What the constructors ask of the standard library and of the kernel is the
  environment's: whether \<open>net.SplitHostPort\<close> accepts an address, whether
  \<open>net.ResolveTCPAddr\<close> accepts \<open>":port"\<close>, and whether \<open>unix.EpollCreate1\<close> succeeds
  for the manager under construction (\<open>None\<close> is no error).
\<close>

record os =
  SplitHostPort :: "string \<Rightarrow> error option"
  ResolveTCPAddr :: "int \<Rightarrow> error option"
  EpollCreate1 :: "mgr \<Rightarrow> error option"

definition newBackend :: "os \<Rightarrow> Context \<Rightarrow> string \<Rightarrow> state \<Rightarrow> (error + nat) \<times> state" where
  "newBackend env c address s =
     (case SplitHostPort env address of
        Some err \<Rightarrow> (Inl (Wrap err ''SplitHostPort()''), s)
      | None \<Rightarrow>
          (case EpollCreate1 env (Backend (next_backend s)) of
             Some err \<Rightarrow> (Inl (Wrap (Wrap err ''EpollCreate1()'') ''New()''), s)
           | None \<Rightarrow>
               (Inr (next_backend s),
                s\<lparr>backends := (backends s)(next_backend s := \<lparr>addr = address, active = False\<rparr>),
                  managers := (managers s)
                    (Backend (next_backend s) := \<lparr>ctx = c, connections = [], epoller = {}\<rparr>),
                  next_backend := Suc (next_backend s)\<rparr>)))"

definition newApplication :: "Context \<Rightarrow> string \<Rightarrow> nat list \<Rightarrow> application" where
  "newApplication c n bs = \<lparr>name = n, bnds = bs\<rparr>"

definition newFrontend :: "os \<Rightarrow> Context \<Rightarrow> int \<Rightarrow> application \<Rightarrow> state \<Rightarrow> (error + nat) \<times> state" where
  "newFrontend env c prt a s =
     (case ResolveTCPAddr env prt of
        Some err \<Rightarrow> (Inl (Wrap err ''ResolveTCPAddr()''), s)
      | None \<Rightarrow>
          (case EpollCreate1 env (Frontend (next_frontend s)) of
             Some err \<Rightarrow> (Inl (Wrap (Wrap err ''EpollCreate1()'') ''New()''), s)
           | None \<Rightarrow>
               (Inr (next_frontend s),
                s\<lparr>frontends := (frontends s)(next_frontend s := \<lparr>app = a, port = prt\<rparr>),
                  managers := (managers s)
                    (Frontend (next_frontend s) := \<lparr>ctx = c, connections = [], epoller = {}\<rparr>),
                  next_frontend := Suc (next_frontend s)\<rparr>)))"

text \<open>The loop over \<open>configApp.Targets\<close>; an error leaves \<open>NewProxy\<close>.\<close>

fun newBackends ::
  "os \<Rightarrow> Context \<Rightarrow> string list \<Rightarrow> nat list \<Rightarrow> state \<Rightarrow> (error + nat list) \<times> state" where
  "newBackends env c [] appBnds s = (Inr appBnds, s)"
| "newBackends env c (target # rest) appBnds s =
     (case newBackend env c target s of
        (Inl err, s1) \<Rightarrow> (Inl (Wrap err ''newBackend()''), s1)
      | (Inr bnd, s1) \<Rightarrow> newBackends env c rest (appBnds @ [bnd]) s1)"

text \<open>The loop over \<open>configApp.Ports\<close>.\<close>

fun newFrontends ::
  "os \<Rightarrow> Context \<Rightarrow> int list \<Rightarrow> application \<Rightarrow> nat list \<Rightarrow> state \<Rightarrow> (error + nat list) \<times> state" where
  "newFrontends env c [] a fnds s = (Inr fnds, s)"
| "newFrontends env c (prt # rest) a fnds s =
     (case newFrontend env c prt a s of
        (Inl err, s1) \<Rightarrow> (Inl (Wrap err ''newFrontend()''), s1)
      | (Inr fnd, s1) \<Rightarrow> newFrontends env c rest a (fnds @ [fnd]) s1)"

text \<open>
  The loop over \<open>config.Apps\<close>. \<open>c\<close> is the argument \<open>ctx\<close> of \<open>NewProxy\<close> and \<open>nCtx\<close>
  the context derived from it; \<open>newBackend\<close> is called with \<open>ctx\<close>, \<open>newApplication\<close>
  and \<open>newFrontend\<close> with \<open>nCtx\<close>.
\<close>

fun NewProxy_loop ::
  "os \<Rightarrow> Context \<Rightarrow> Context \<Rightarrow> ConfigApp list \<Rightarrow> application list \<Rightarrow> nat list \<Rightarrow> nat list \<Rightarrow> state
     \<Rightarrow> (error + application list \<times> nat list \<times> nat list) \<times> state" where
  "NewProxy_loop env c nCtx [] apps fnds bs s = (Inr (apps, fnds, bs), s)"
| "NewProxy_loop env c nCtx (configApp # rest) apps fnds bs s =
     (case newBackends env c (Targets configApp) [] s of
        (Inl err, s1) \<Rightarrow> (Inl err, cancel nCtx s1)
      | (Inr appBnds, s1) \<Rightarrow>
          (let a = newApplication nCtx (Name configApp) appBnds
           in (case newFrontends env nCtx (Ports configApp) a fnds s1 of
                 (Inl err, s2) \<Rightarrow> (Inl err, cancel nCtx s2)
               | (Inr fnds', s2) \<Rightarrow>
                   NewProxy_loop env c nCtx rest (apps @ [a]) fnds' (bs @ appBnds) s2)))"

definition NewProxy :: "os \<Rightarrow> Context \<Rightarrow> ProxyConfig \<Rightarrow> state \<Rightarrow> (error + Proxy) \<times> state" where
  "NewProxy env c config s =
     (let nCtx = WithCancel c
      in (case NewProxy_loop env c nCtx (Apps config) [] [] [] s of
            (Inl err, s1) \<Rightarrow> (Inl err, s1)
          | (Inr (apps, fnds, bs), s1) \<Rightarrow>
              (Inr \<lparr>proxy_ctx = nCtx, proxy_apps = apps, proxy_fnds = fnds, proxy_bnds = bs\<rparr>, s1)))"

text \<open>The state of the process before \<open>NewProxy\<close>: nothing allocated, nothing cancelled.\<close>

definition start :: state where
  "start =
     \<lparr>cancelled = {},
      netConns = (\<lambda>_. \<lparr>Sysfd = - 1, Close_result = None, Close_calls = 0\<rparr>),
      Conns = (\<lambda>_. \<lparr>netconn = 0, fd = - 1, closed = False, manager = Frontend 0\<rparr>),
      Onces = (\<lambda>_. \<lparr>once_done = False, Do_calls = 0, Do_runs = 0\<rparr>),
      PipedConns = (\<lambda>_. \<lparr>conn = 0, pipeTo = 0, finalizeOnce = 0, underIO = False\<rparr>),
      managers = (\<lambda>_. \<lparr>ctx = Background, connections = [], epoller = {}\<rparr>),
      backends = (\<lambda>_. \<lparr>addr = [], active = False\<rparr>),
      frontends = (\<lambda>_. \<lparr>app = \<lparr>name = [], bnds = []\<rparr>, port = 0\<rparr>),
      goroutines = [],
      status_log = [],
      next_netConn = 0, next_Conn = 0, next_Once = 0, next_PipedConn = 0,
      next_backend = 0, next_frontend = 0\<rparr>"

text \<open>
  Goroutines run one after the other in some order; each comes with what its
  \<open>io.CopyBuffer\<close> returns, should it copy.
\<close>

definition run_goroutines :: "(goroutine \<times> int \<times> error option) list \<Rightarrow> state \<Rightarrow> state" where
  "run_goroutines gs s = fold (\<lambda>(g, copied). run_goroutine g copied) gs s"

section \<open>Example runs\<close>

text \<open>
  An environment in which every address is well formed and every epoll instance can be
  created, the configuration with one application, one port and one target, and a socket
  with a given descriptor whose \<open>Close\<close> returns no error.
\<close>

definition example_env :: os where
  "example_env =
     \<lparr>SplitHostPort = (\<lambda>_. None), ResolveTCPAddr = (\<lambda>_. None), EpollCreate1 = (\<lambda>_. None)\<rparr>"

definition example_config :: ProxyConfig where
  "example_config =
     \<lparr>Apps = [\<lparr>Name = ''a'', Ports = [9000], Targets = [''127.0.0.1:9001'']\<rparr>]\<rparr>"

definition socket :: "int \<Rightarrow> netConn" where
  "socket d = \<lparr>Sysfd = d, Close_result = None, Close_calls = 0\<rparr>"

text \<open>
  \<open>main\<close> derives its context from \<open>Background\<close> and calls \<open>NewProxy\<close> with it. In
  \<open>constructed\<close> the proxy has been constructed; in \<open>proxy_up\<close> the first health check of
  its backend has then succeeded; in \<open>accepted\<close> the frontend has then accepted a client on descriptor 7;
  in \<open>tunnel_up\<close> \<open>handleNewConnection\<close> has dialled the backend for that client on
  descriptor 8.
\<close>

definition constructed :: state where
  "constructed = snd (NewProxy example_env (WithCancel Background) example_config start)"

definition proxy_up :: state where
  "proxy_up = healthcheck 0 (Inr (socket 5)) constructed"

definition accepted :: state where
  "accepted = snd (new_netConn (socket 7) proxy_up)"

definition tunnel_up :: state where
  "tunnel_up = handleNewConnection 0 (Suc 0) (Inr (socket 8)) accepted"

text \<open>
  In \<open>shut_down\<close> the signal has then arrived: the context of \<open>main\<close> is cancelled. In
  \<open>half_built\<close>, taken from \<open>accepted\<close>, \<open>handleNewConnection\<close> has dialled the backend
  and built its first \<open>PipedConn\<close> but has not yet called \<open>addConn\<close>.
\<close>

definition shut_down :: state where
  "shut_down = cancel (WithCancel Background) tunnel_up"

definition half_built :: state where
  "half_built =
     snd (newPiped (Suc 0) 0 0
       (snd (new_Once
         (snd (newConn (Suc 0) (Frontend 0)
           (snd (createRemoteConnection (app (frontends accepted 0)) (Inr (socket 8)) accepted)))))))"

text \<open>
  A second run, with three targets. In \<open>three_up\<close> the first health check of each
  backend has succeeded. \<open>connect\<close> is one turn of the accept loop of frontend 0: a
  client is accepted and \<open>handleNewConnection\<close> dials for it. After four clients
  (\<open>busy4\<close>) the backend of the third client closes its side: the copy from that
  backend returns zero bytes (\<open>skewed\<close>).
\<close>

definition example_config3 :: ProxyConfig where
  "example_config3 =
     \<lparr>Apps = [\<lparr>Name = ''a'', Ports = [9000],
               Targets = [''127.0.0.1:9001'', ''127.0.0.1:9002'', ''127.0.0.1:9003'']\<rparr>]\<rparr>"

definition three_up :: state where
  "three_up =
     healthcheck 2 (Inr (socket 5)) (healthcheck 1 (Inr (socket 5)) (healthcheck 0 (Inr (socket 5))
       (snd (NewProxy example_env (WithCancel Background) example_config3 start))))"

definition connect :: "int \<Rightarrow> int \<Rightarrow> state \<Rightarrow> state" where
  "connect client remote s =
     handleNewConnection 0 (next_netConn s) (Inr (socket remote)) (snd (new_netConn (socket client) s))"

definition busy1 :: state where "busy1 = connect 10 11 three_up"
definition busy2 :: state where "busy2 = connect 12 13 busy1"
definition busy3 :: state where "busy3 = connect 14 15 busy2"
definition busy4 :: state where "busy4 = connect 16 17 busy3"

definition skewed :: state where
  "skewed = serveConn (Backend (Suc 0)) 5 (0, None) busy4"

section \<open>What each operation changes and what it leaves alone\<close>

lemma cancel_frame [simp]:
  "netConns (cancel c s) = netConns s"
  "Conns (cancel c s) = Conns s"
  "Onces (cancel c s) = Onces s"
  "PipedConns (cancel c s) = PipedConns s"
  "managers (cancel c s) = managers s"
  "backends (cancel c s) = backends s"
  "frontends (cancel c s) = frontends s"
  "goroutines (cancel c s) = goroutines s"
  "status_log (cancel c s) = status_log s"
  "next_netConn (cancel c s) = next_netConn s"
  "next_Conn (cancel c s) = next_Conn s"
  "next_Once (cancel c s) = next_Once s"
  "next_PipedConn (cancel c s) = next_PipedConn s"
  "next_backend (cancel c s) = next_backend s"
  "next_frontend (cancel c s) = next_frontend s"
  by (simp_all add: cancel_def)

lemma go_frame [simp]:
  "cancelled (go g s) = cancelled s"
  "netConns (go g s) = netConns s"
  "Conns (go g s) = Conns s"
  "Onces (go g s) = Onces s"
  "PipedConns (go g s) = PipedConns s"
  "managers (go g s) = managers s"
  "backends (go g s) = backends s"
  "frontends (go g s) = frontends s"
  "status_log (go g s) = status_log s"
  "next_netConn (go g s) = next_netConn s"
  "next_Conn (go g s) = next_Conn s"
  "next_Once (go g s) = next_Once s"
  "next_PipedConn (go g s) = next_PipedConn s"
  "next_backend (go g s) = next_backend s"
  "next_frontend (go g s) = next_frontend s"
  by (simp_all add: go_def)

lemma net_Close_frame [simp]:
  "cancelled (snd (net_Close nc s)) = cancelled s"
  "Conns (snd (net_Close nc s)) = Conns s"
  "Onces (snd (net_Close nc s)) = Onces s"
  "PipedConns (snd (net_Close nc s)) = PipedConns s"
  "managers (snd (net_Close nc s)) = managers s"
  "backends (snd (net_Close nc s)) = backends s"
  "frontends (snd (net_Close nc s)) = frontends s"
  "goroutines (snd (net_Close nc s)) = goroutines s"
  "status_log (snd (net_Close nc s)) = status_log s"
  "next_netConn (snd (net_Close nc s)) = next_netConn s"
  "next_Conn (snd (net_Close nc s)) = next_Conn s"
  "next_Once (snd (net_Close nc s)) = next_Once s"
  "next_PipedConn (snd (net_Close nc s)) = next_PipedConn s"
  "next_backend (snd (net_Close nc s)) = next_backend s"
  "next_frontend (snd (net_Close nc s)) = next_frontend s"
  by (simp_all add: net_Close_def)

lemma new_netConn_frame [simp]:
  "cancelled (snd (new_netConn v s)) = cancelled s"
  "Conns (snd (new_netConn v s)) = Conns s"
  "Onces (snd (new_netConn v s)) = Onces s"
  "PipedConns (snd (new_netConn v s)) = PipedConns s"
  "managers (snd (new_netConn v s)) = managers s"
  "backends (snd (new_netConn v s)) = backends s"
  "frontends (snd (new_netConn v s)) = frontends s"
  "goroutines (snd (new_netConn v s)) = goroutines s"
  "status_log (snd (new_netConn v s)) = status_log s"
  "next_Conn (snd (new_netConn v s)) = next_Conn s"
  "next_Once (snd (new_netConn v s)) = next_Once s"
  "next_PipedConn (snd (new_netConn v s)) = next_PipedConn s"
  "next_backend (snd (new_netConn v s)) = next_backend s"
  "next_frontend (snd (new_netConn v s)) = next_frontend s"
  by (simp_all add: new_netConn_def)

lemma newConn_frame [simp]:
  "cancelled (snd (newConn nc m s)) = cancelled s"
  "netConns (snd (newConn nc m s)) = netConns s"
  "Onces (snd (newConn nc m s)) = Onces s"
  "PipedConns (snd (newConn nc m s)) = PipedConns s"
  "managers (snd (newConn nc m s)) = managers s"
  "backends (snd (newConn nc m s)) = backends s"
  "frontends (snd (newConn nc m s)) = frontends s"
  "goroutines (snd (newConn nc m s)) = goroutines s"
  "status_log (snd (newConn nc m s)) = status_log s"
  "next_netConn (snd (newConn nc m s)) = next_netConn s"
  "next_Once (snd (newConn nc m s)) = next_Once s"
  "next_PipedConn (snd (newConn nc m s)) = next_PipedConn s"
  "next_backend (snd (newConn nc m s)) = next_backend s"
  "next_frontend (snd (newConn nc m s)) = next_frontend s"
  by (simp_all add: newConn_def)

lemma Close_frame [simp]:
  "cancelled (snd (Close c s)) = cancelled s"
  "Onces (snd (Close c s)) = Onces s"
  "PipedConns (snd (Close c s)) = PipedConns s"
  "managers (snd (Close c s)) = managers s"
  "backends (snd (Close c s)) = backends s"
  "frontends (snd (Close c s)) = frontends s"
  "goroutines (snd (Close c s)) = goroutines s"
  "status_log (snd (Close c s)) = status_log s"
  "next_netConn (snd (Close c s)) = next_netConn s"
  "next_Conn (snd (Close c s)) = next_Conn s"
  "next_Once (snd (Close c s)) = next_Once s"
  "next_PipedConn (snd (Close c s)) = next_PipedConn s"
  "next_backend (snd (Close c s)) = next_backend s"
  "next_frontend (snd (Close c s)) = next_frontend s"
  by (simp_all add: Close_def)

lemma new_Once_frame [simp]:
  "cancelled (snd (new_Once s)) = cancelled s"
  "netConns (snd (new_Once s)) = netConns s"
  "Conns (snd (new_Once s)) = Conns s"
  "PipedConns (snd (new_Once s)) = PipedConns s"
  "managers (snd (new_Once s)) = managers s"
  "backends (snd (new_Once s)) = backends s"
  "frontends (snd (new_Once s)) = frontends s"
  "goroutines (snd (new_Once s)) = goroutines s"
  "status_log (snd (new_Once s)) = status_log s"
  "next_netConn (snd (new_Once s)) = next_netConn s"
  "next_Conn (snd (new_Once s)) = next_Conn s"
  "next_PipedConn (snd (new_Once s)) = next_PipedConn s"
  "next_backend (snd (new_Once s)) = next_backend s"
  "next_frontend (snd (new_Once s)) = next_frontend s"
  by (simp_all add: new_Once_def)

lemma newPiped_frame [simp]:
  "cancelled (snd (newPiped c out once s)) = cancelled s"
  "netConns (snd (newPiped c out once s)) = netConns s"
  "Conns (snd (newPiped c out once s)) = Conns s"
  "Onces (snd (newPiped c out once s)) = Onces s"
  "managers (snd (newPiped c out once s)) = managers s"
  "backends (snd (newPiped c out once s)) = backends s"
  "frontends (snd (newPiped c out once s)) = frontends s"
  "goroutines (snd (newPiped c out once s)) = goroutines s"
  "status_log (snd (newPiped c out once s)) = status_log s"
  "next_netConn (snd (newPiped c out once s)) = next_netConn s"
  "next_Conn (snd (newPiped c out once s)) = next_Conn s"
  "next_Once (snd (newPiped c out once s)) = next_Once s"
  "next_backend (snd (newPiped c out once s)) = next_backend s"
  "next_frontend (snd (newPiped c out once s)) = next_frontend s"
  by (simp_all add: newPiped_def)

lemma setUnderIO_frame [simp]:
  "cancelled (snd (setUnderIO p v s)) = cancelled s"
  "netConns (snd (setUnderIO p v s)) = netConns s"
  "Conns (snd (setUnderIO p v s)) = Conns s"
  "Onces (snd (setUnderIO p v s)) = Onces s"
  "managers (snd (setUnderIO p v s)) = managers s"
  "backends (snd (setUnderIO p v s)) = backends s"
  "frontends (snd (setUnderIO p v s)) = frontends s"
  "goroutines (snd (setUnderIO p v s)) = goroutines s"
  "status_log (snd (setUnderIO p v s)) = status_log s"
  "next_netConn (snd (setUnderIO p v s)) = next_netConn s"
  "next_Conn (snd (setUnderIO p v s)) = next_Conn s"
  "next_Once (snd (setUnderIO p v s)) = next_Once s"
  "next_PipedConn (snd (setUnderIO p v s)) = next_PipedConn s"
  "next_backend (snd (setUnderIO p v s)) = next_backend s"
  "next_frontend (snd (setUnderIO p v s)) = next_frontend s"
  by (simp_all add: setUnderIO_def)

lemma addConn_frame [simp]:
  "cancelled (addConn m p s) = cancelled s"
  "Onces (addConn m p s) = Onces s"
  "PipedConns (addConn m p s) = PipedConns s"
  "backends (addConn m p s) = backends s"
  "frontends (addConn m p s) = frontends s"
  "goroutines (addConn m p s) = goroutines s"
  "status_log (addConn m p s) = status_log s"
  "next_netConn (addConn m p s) = next_netConn s"
  "next_Conn (addConn m p s) = next_Conn s"
  "next_Once (addConn m p s) = next_Once s"
  "next_PipedConn (addConn m p s) = next_PipedConn s"
  "next_backend (addConn m p s) = next_backend s"
  "next_frontend (addConn m p s) = next_frontend s"
  by (simp_all add: addConn_def Let_def)

lemma delConn_frame [simp]:
  "cancelled (delConn m d s) = cancelled s"
  "netConns (delConn m d s) = netConns s"
  "Conns (delConn m d s) = Conns s"
  "Onces (delConn m d s) = Onces s"
  "PipedConns (delConn m d s) = PipedConns s"
  "backends (delConn m d s) = backends s"
  "frontends (delConn m d s) = frontends s"
  "goroutines (delConn m d s) = goroutines s"
  "status_log (delConn m d s) = status_log s"
  "next_netConn (delConn m d s) = next_netConn s"
  "next_Conn (delConn m d s) = next_Conn s"
  "next_Once (delConn m d s) = next_Once s"
  "next_PipedConn (delConn m d s) = next_PipedConn s"
  "next_backend (delConn m d s) = next_backend s"
  "next_frontend (delConn m d s) = next_frontend s"
  by (simp_all add: delConn_def)

lemma finalize_frame [simp]:
  "cancelled (finalize p s) = cancelled s"
  "Onces (finalize p s) = Onces s"
  "backends (finalize p s) = backends s"
  "frontends (finalize p s) = frontends s"
  "goroutines (finalize p s) = goroutines s"
  "status_log (finalize p s) = status_log s"
  "next_netConn (finalize p s) = next_netConn s"
  "next_Conn (finalize p s) = next_Conn s"
  "next_Once (finalize p s) = next_Once s"
  "next_PipedConn (finalize p s) = next_PipedConn s"
  "next_backend (finalize p s) = next_backend s"
  "next_frontend (finalize p s) = next_frontend s"
  by (simp_all add: finalize_def Let_def)

lemma Do_finalize_frame [simp]:
  "cancelled (Do once (finalize p) s) = cancelled s"
  "backends (Do once (finalize p) s) = backends s"
  "frontends (Do once (finalize p) s) = frontends s"
  "goroutines (Do once (finalize p) s) = goroutines s"
  "status_log (Do once (finalize p) s) = status_log s"
  "next_netConn (Do once (finalize p) s) = next_netConn s"
  "next_Conn (Do once (finalize p) s) = next_Conn s"
  "next_Once (Do once (finalize p) s) = next_Once s"
  "next_PipedConn (Do once (finalize p) s) = next_PipedConn s"
  "next_backend (Do once (finalize p) s) = next_backend s"
  "next_frontend (Do once (finalize p) s) = next_frontend s"
  by (simp_all add: Do_def Let_def)

lemma setActive_frame [simp]:
  "cancelled (setActive b t s) = cancelled s"
  "netConns (setActive b t s) = netConns s"
  "Conns (setActive b t s) = Conns s"
  "Onces (setActive b t s) = Onces s"
  "PipedConns (setActive b t s) = PipedConns s"
  "managers (setActive b t s) = managers s"
  "frontends (setActive b t s) = frontends s"
  "goroutines (setActive b t s) = goroutines s"
  "next_netConn (setActive b t s) = next_netConn s"
  "next_Conn (setActive b t s) = next_Conn s"
  "next_Once (setActive b t s) = next_Once s"
  "next_PipedConn (setActive b t s) = next_PipedConn s"
  "next_backend (setActive b t s) = next_backend s"
  "next_frontend (setActive b t s) = next_frontend s"
  by (simp_all add: setActive_def)

lemma healthcheck_frame [simp]:
  "cancelled (healthcheck b dialled s) = cancelled s"
  "Conns (healthcheck b dialled s) = Conns s"
  "Onces (healthcheck b dialled s) = Onces s"
  "PipedConns (healthcheck b dialled s) = PipedConns s"
  "managers (healthcheck b dialled s) = managers s"
  "frontends (healthcheck b dialled s) = frontends s"
  "goroutines (healthcheck b dialled s) = goroutines s"
  "next_Conn (healthcheck b dialled s) = next_Conn s"
  "next_Once (healthcheck b dialled s) = next_Once s"
  "next_PipedConn (healthcheck b dialled s) = next_PipedConn s"
  "next_backend (healthcheck b dialled s) = next_backend s"
  "next_frontend (healthcheck b dialled s) = next_frontend s"
  by (simp_all add: healthcheck_def case_prod_beta split: sum.split)

lemma createConn_frame [simp]:
  "cancelled (snd (createConn b dialled s)) = cancelled s"
  "Conns (snd (createConn b dialled s)) = Conns s"
  "Onces (snd (createConn b dialled s)) = Onces s"
  "PipedConns (snd (createConn b dialled s)) = PipedConns s"
  "managers (snd (createConn b dialled s)) = managers s"
  "frontends (snd (createConn b dialled s)) = frontends s"
  "goroutines (snd (createConn b dialled s)) = goroutines s"
  "next_Conn (snd (createConn b dialled s)) = next_Conn s"
  "next_Once (snd (createConn b dialled s)) = next_Once s"
  "next_PipedConn (snd (createConn b dialled s)) = next_PipedConn s"
  "next_backend (snd (createConn b dialled s)) = next_backend s"
  "next_frontend (snd (createConn b dialled s)) = next_frontend s"
  by (simp_all add: createConn_def case_prod_beta split: sum.split)

lemma serveEvent_frame [simp]:
  "cancelled (serveEvent m event s) = cancelled s"
  "netConns (serveEvent m event s) = netConns s"
  "Conns (serveEvent m event s) = Conns s"
  "Onces (serveEvent m event s) = Onces s"
  "managers (serveEvent m event s) = managers s"
  "backends (serveEvent m event s) = backends s"
  "frontends (serveEvent m event s) = frontends s"
  "status_log (serveEvent m event s) = status_log s"
  "next_netConn (serveEvent m event s) = next_netConn s"
  "next_Conn (serveEvent m event s) = next_Conn s"
  "next_Once (serveEvent m event s) = next_Once s"
  "next_PipedConn (serveEvent m event s) = next_PipedConn s"
  "next_backend (serveEvent m event s) = next_backend s"
  "next_frontend (serveEvent m event s) = next_frontend s"
  by (simp_all add: serveEvent_def case_prod_beta split: option.split)

lemma serveConn_frame [simp]:
  "cancelled (serveConn m p copied s) = cancelled s"
  "backends (serveConn m p copied s) = backends s"
  "frontends (serveConn m p copied s) = frontends s"
  "goroutines (serveConn m p copied s) = goroutines s"
  "status_log (serveConn m p copied s) = status_log s"
  "next_netConn (serveConn m p copied s) = next_netConn s"
  "next_Conn (serveConn m p copied s) = next_Conn s"
  "next_Once (serveConn m p copied s) = next_Once s"
  "next_PipedConn (serveConn m p copied s) = next_PipedConn s"
  "next_backend (serveConn m p copied s) = next_backend s"
  "next_frontend (serveConn m p copied s) = next_frontend s"
  by (simp_all add: serveConn_def Let_def case_prod_beta)

lemma cancel_cancelled [simp]: "cancelled (cancel c s) = insert c (cancelled s)"
  by (simp add: cancel_def)

lemma go_goroutines [simp]: "goroutines (go g s) = goroutines s @ [g]"
  by (simp add: go_def)

lemma net_Close_result [simp]:
  "fst (net_Close nc s) = Close_result (netConns s nc)"
  "netConns (snd (net_Close nc s)) =
     (netConns s)(nc := (netConns s nc)\<lparr>Close_calls := Suc (Close_calls (netConns s nc))\<rparr>)"
  by (simp_all add: net_Close_def)

lemma new_netConn_result [simp]:
  "fst (new_netConn v s) = next_netConn s"
  "netConns (snd (new_netConn v s)) = (netConns s)(next_netConn s := v)"
  "next_netConn (snd (new_netConn v s)) = Suc (next_netConn s)"
  by (simp_all add: new_netConn_def)

lemma newConn_result [simp]:
  "fst (newConn nc m s) = next_Conn s"
  "Conns (snd (newConn nc m s)) =
     (Conns s)(next_Conn s := \<lparr>netconn = nc, fd = Sysfd (netConns s nc), closed = False, manager = m\<rparr>)"
  "next_Conn (snd (newConn nc m s)) = Suc (next_Conn s)"
  by (simp_all add: newConn_def fdFromConn_def)

lemma Close_effect [simp]:
  "fst (Close c s) =
     (if closed (Conns s c) then None else Close_result (netConns s (netconn (Conns s c))))"
  "Conns (snd (Close c s)) = (Conns s)(c := (Conns s c)\<lparr>closed := True\<rparr>)"
  "netConns (snd (Close c s)) =
     (if closed (Conns s c) then netConns s
      else (netConns s)(netconn (Conns s c) := (netConns s (netconn (Conns s c)))
             \<lparr>Close_calls := Suc (Close_calls (netConns s (netconn (Conns s c))))\<rparr>))"
  by (auto simp: Close_def net_Close_def)

lemma new_Once_result [simp]:
  "fst (new_Once s) = next_Once s"
  "Onces (snd (new_Once s)) = (Onces s)(next_Once s := \<lparr>once_done = False, Do_calls = 0, Do_runs = 0\<rparr>)"
  "next_Once (snd (new_Once s)) = Suc (next_Once s)"
  by (simp_all add: new_Once_def)

lemma newPiped_result [simp]:
  "fst (newPiped c out once s) = next_PipedConn s"
  "PipedConns (snd (newPiped c out once s)) =
     (PipedConns s)(next_PipedConn s := \<lparr>conn = c, pipeTo = out, finalizeOnce = once, underIO = False\<rparr>)"
  "next_PipedConn (snd (newPiped c out once s)) = Suc (next_PipedConn s)"
  by (simp_all add: newPiped_def)

lemma setUnderIO_result [simp]:
  "fst (setUnderIO p v s) = (underIO (PipedConns s p) = (\<not> v))"
  "PipedConns (snd (setUnderIO p v s)) = (PipedConns s)(p := (PipedConns s p)\<lparr>underIO := v\<rparr>)"
  by (auto simp: setUnderIO_def)

lemma addConn_result [simp]:
  "Conns (addConn m p s) =
     (if ctx_Done (cancelled s) (ctx (managers s m))
      then (Conns s)(conn (PipedConns s p) := (Conns s (conn (PipedConns s p)))\<lparr>closed := True\<rparr>)
      else Conns s)"
  "netConns (addConn m p s) =
     (if ctx_Done (cancelled s) (ctx (managers s m))
      then netConns (snd (Close (conn (PipedConns s p)) s)) else netConns s)"
  "managers (addConn m p s) =
     (managers s)(m := (managers s m)
        \<lparr>connections := AList.update (fd (Conns s (conn (PipedConns s p)))) p (connections (managers s m)),
         epoller := insert (fd (Conns s (conn (PipedConns s p)))) (epoller (managers s m))\<rparr>)"
  by (simp_all add: addConn_def Let_def)

lemma delConn_result [simp]:
  "managers (delConn m d s) =
     (if ctx_Done (cancelled s) (ctx (managers s m)) then managers s
      else (managers s)(m := (managers s m)
             \<lparr>connections := AList.delete d (connections (managers s m)),
              epoller := epoller (managers s m) - {d}\<rparr>))"
  by (simp add: delConn_def)

lemma finalize_result [simp]:
  "PipedConns (finalize p s) = (PipedConns s)(p := (PipedConns s p)\<lparr>underIO := False\<rparr>)"
  "Conns (finalize p s) =
     Conns (snd (Close (pipeTo (PipedConns s p)) (snd (Close (conn (PipedConns s p)) s))))"
  "netConns (finalize p s) =
     netConns (snd (Close (pipeTo (PipedConns s p)) (snd (Close (conn (PipedConns s p)) s))))"
  "managers (finalize p s) =
     managers (delConn (manager (Conns s (conn (PipedConns s p)))) (fd (Conns s (conn (PipedConns s p))))
       (delConn (manager (Conns s (pipeTo (PipedConns s p)))) (fd (Conns s (pipeTo (PipedConns s p)))) s))"
  by (simp_all add: finalize_def Let_def)

lemma Do_finalize_result [simp]:
  "Onces (Do once (finalize p) s) =
     (Onces s)(once :=
        \<lparr>once_done = True, Do_calls = Suc (Do_calls (Onces s once)),
         Do_runs = (if once_done (Onces s once) then Do_runs (Onces s once)
                    else Suc (Do_runs (Onces s once)))\<rparr>)"
  "PipedConns (Do once (finalize p) s) =
     (if once_done (Onces s once) then PipedConns s else PipedConns (finalize p s))"
  "Conns (Do once (finalize p) s) =
     (if once_done (Onces s once) then Conns s else Conns (finalize p s))"
  "netConns (Do once (finalize p) s) =
     (if once_done (Onces s once) then netConns s else netConns (finalize p s))"
  "managers (Do once (finalize p) s) =
     (if once_done (Onces s once) then managers s else managers (finalize p s))"
  by (auto simp: Do_def Let_def)

lemma setActive_result [simp]:
  "backends (setActive b t s) = (backends s)(b := (backends s b)\<lparr>active := t\<rparr>)"
  "status_log (setActive b t s) =
     (if active (backends s b) = t then status_log s else status_log s @ [(b, t)])"
  by (auto simp: setActive_def)


lemma serveConn_result [simp]:
  "Onces (serveConn m p copied s) =
     (if snd copied \<noteq> None \<or> fst copied = 0
      then Onces (Do (finalizeOnce (PipedConns s p)) (finalize p) (snd (setUnderIO p False s)))
      else Onces s)"
  "PipedConns (serveConn m p copied s) =
     (if snd copied \<noteq> None \<or> fst copied = 0
      then PipedConns (Do (finalizeOnce (PipedConns s p)) (finalize p) (snd (setUnderIO p False s)))
      else PipedConns (snd (setUnderIO p False s)))"
  "Conns (serveConn m p copied s) =
     (if snd copied \<noteq> None \<or> fst copied = 0
      then Conns (Do (finalizeOnce (PipedConns s p)) (finalize p) (snd (setUnderIO p False s)))
      else Conns s)"
  "netConns (serveConn m p copied s) =
     (if snd copied \<noteq> None \<or> fst copied = 0
      then netConns (Do (finalizeOnce (PipedConns s p)) (finalize p) (snd (setUnderIO p False s)))
      else netConns s)"
  "managers (serveConn m p copied s) =
     (if snd copied \<noteq> None \<or> fst copied = 0
      then managers (Do (finalizeOnce (PipedConns s p)) (finalize p) (snd (setUnderIO p False s)))
      else managers s)"
  by (simp_all add: serveConn_def Let_def case_prod_beta)

lemma healthcheck_result [simp]:
  "backends (healthcheck b dialled s) = (backends s)(b := (backends s b)\<lparr>active := \<not> isl dialled\<rparr>)"
  "status_log (healthcheck b dialled s) =
     (if active (backends s b) = (\<not> isl dialled) then status_log s
      else status_log s @ [(b, \<not> isl dialled)])"
  "next_netConn (healthcheck b dialled s) =
     (if isl dialled then next_netConn s else Suc (next_netConn s))"
  by (simp_all add: healthcheck_def case_prod_beta split: sum.split)

lemma createConn_result [simp]:
  "fst (createConn b dialled s) =
     (case dialled of Inl err \<Rightarrow> Inl (Wrap err ''Dial()'') | Inr v \<Rightarrow> Inr (next_netConn s))"
  "backends (snd (createConn b dialled s)) =
     (if isl dialled then (backends s)(b := (backends s b)\<lparr>active := False\<rparr>) else backends s)"
  "status_log (snd (createConn b dialled s)) =
     (if isl dialled \<and> active (backends s b) then status_log s @ [(b, False)] else status_log s)"
  "next_netConn (snd (createConn b dialled s)) =
     (if isl dialled then next_netConn s else Suc (next_netConn s))"
  "netConns (snd (createConn b dialled s)) =
     (case dialled of Inl err \<Rightarrow> netConns s | Inr v \<Rightarrow> (netConns s)(next_netConn s := v))"
  by (simp_all add: createConn_def case_prod_beta split: sum.split)

lemma healthcheck_netConns [simp]:
  "netConns (healthcheck b dialled s) =
     (case dialled of
        Inl err \<Rightarrow> netConns s
      | Inr v \<Rightarrow> (netConns s)(next_netConn s := v\<lparr>Close_calls := Suc (Close_calls v)\<rparr>))"
  by (simp add: healthcheck_def case_prod_beta split: sum.split)


lemma createRemoteConnection_success:
  "nextBackend a s = Inr b \<Longrightarrow>
   createRemoteConnection a (Inr v) s =
     (Inr (next_Conn s), snd (newConn (next_netConn s) (Backend b) (snd (new_netConn v s))))"
  by (simp add: createRemoteConnection_def createConn_def case_prod_beta prod_eq_iff)

lemma handleNewConnection_success:
  assumes "nextBackend (app (frontends s f)) s = Inr b"
  shows "handleNewConnection f nc (Inr v) s =
     addConn (Backend b) (Suc (next_PipedConn s)) (snd (newPiped (next_Conn s) (Suc (next_Conn s)) (next_Once s) (addConn (Frontend f) (next_PipedConn s) (snd (newPiped (Suc (next_Conn s)) (next_Conn s) (next_Once s) (snd (new_Once (snd (newConn nc (Frontend f) (snd (newConn (next_netConn s) (Backend b) (snd (new_netConn v s)))))))))))))"
  by (simp add: handleNewConnection_def createRemoteConnection_success [OF assms] case_prod_beta Let_def)

section \<open>The example runs, evaluated\<close>

lemma constructed_fields:
  "fst (NewProxy example_env (WithCancel Background) example_config start) =
     Inr \<lparr>proxy_ctx = WithCancel (WithCancel Background),
          proxy_apps = [\<lparr>name = ''a'', bnds = [0]\<rparr>], proxy_fnds = [0], proxy_bnds = [0]\<rparr>"
  "managers constructed (Backend 0) = \<lparr>ctx = WithCancel Background, connections = [], epoller = {}\<rparr>"
  "managers constructed (Frontend 0) =
     \<lparr>ctx = WithCancel (WithCancel Background), connections = [], epoller = {}\<rparr>"
  "backends constructed 0 = \<lparr>addr = ''127.0.0.1:9001'', active = False\<rparr>"
  "status_log constructed = []"
  "frontends constructed 0 = \<lparr>app = \<lparr>name = ''a'', bnds = [0]\<rparr>, port = 9000\<rparr>"
  "cancelled constructed = {}"
  "goroutines constructed = []"
  "next_netConn constructed = 0"
  "next_Conn constructed = 0"
  "next_Once constructed = 0"
  "next_PipedConn constructed = 0"
  by (simp_all add: constructed_def NewProxy_def newBackend_def newFrontend_def
      newApplication_def example_env_def example_config_def start_def Let_def)

lemma proxy_up_fields:
  "managers proxy_up (Backend 0) = \<lparr>ctx = WithCancel Background, connections = [], epoller = {}\<rparr>"
  "managers proxy_up (Frontend 0) =
     \<lparr>ctx = WithCancel (WithCancel Background), connections = [], epoller = {}\<rparr>"
  "backends proxy_up 0 = \<lparr>addr = ''127.0.0.1:9001'', active = True\<rparr>"
  "frontends proxy_up 0 = \<lparr>app = \<lparr>name = ''a'', bnds = [0]\<rparr>, port = 9000\<rparr>"
  "status_log proxy_up = [(0, True)]"
  "cancelled proxy_up = {}"
  "next_netConn proxy_up = Suc 0"
  "next_Conn proxy_up = 0"
  "next_Once proxy_up = 0"
  "next_PipedConn proxy_up = 0"
  "goroutines proxy_up = []"
  by (simp_all add: proxy_up_def constructed_fields socket_def)

lemma accepted_nextBackend: "nextBackend (app (frontends accepted 0)) accepted = Inr 0"
  by (simp add: accepted_def nextBackend_def getConnCount_def proxy_up_fields)

lemma tunnel_up_fields:
  "managers tunnel_up (Frontend 0) =
     \<lparr>ctx = WithCancel (WithCancel Background), connections = [(7, 0)], epoller = {7}\<rparr>"
  "managers tunnel_up (Backend 0) =
     \<lparr>ctx = WithCancel Background, connections = [(8, Suc 0)], epoller = {8}\<rparr>"
  "PipedConns tunnel_up 0 = \<lparr>conn = Suc 0, pipeTo = 0, finalizeOnce = 0, underIO = False\<rparr>"
  "PipedConns tunnel_up (Suc 0) = \<lparr>conn = 0, pipeTo = Suc 0, finalizeOnce = 0, underIO = False\<rparr>"
  "Conns tunnel_up 0 = \<lparr>netconn = 2, fd = 8, closed = False, manager = Backend 0\<rparr>"
  "Conns tunnel_up (Suc 0) = \<lparr>netconn = Suc 0, fd = 7, closed = False, manager = Frontend 0\<rparr>"
  "Onces tunnel_up 0 = \<lparr>once_done = False, Do_calls = 0, Do_runs = 0\<rparr>"
  "cancelled tunnel_up = {}"
  "goroutines tunnel_up = []"
  unfolding tunnel_up_def handleNewConnection_success [OF accepted_nextBackend]
  by (simp_all add: accepted_def proxy_up_fields socket_def)

lemma accepted_fields:
  "next_netConn accepted = 2" "next_Conn accepted = 0" "next_Once accepted = 0"
  "next_PipedConn accepted = 0"
  by (simp_all add: accepted_def proxy_up_fields)

lemma three_up_fields:
  "managers three_up (Backend 0) = \<lparr>ctx = WithCancel Background, connections = [], epoller = {}\<rparr>"
  "managers three_up (Backend (Suc 0)) = \<lparr>ctx = WithCancel Background, connections = [], epoller = {}\<rparr>"
  "managers three_up (Backend 2) = \<lparr>ctx = WithCancel Background, connections = [], epoller = {}\<rparr>"
  "managers three_up (Frontend 0) =
     \<lparr>ctx = WithCancel (WithCancel Background), connections = [], epoller = {}\<rparr>"
  "active (backends three_up 0)"
  "active (backends three_up (Suc 0))"
  "active (backends three_up 2)"
  "app (frontends three_up 0) = \<lparr>name = ''a'', bnds = [0, Suc 0, 2]\<rparr>"
  "cancelled three_up = {}"
  "next_netConn three_up = 3"
  "next_Conn three_up = 0"
  "next_Once three_up = 0"
  "next_PipedConn three_up = 0"
  by (simp_all add: three_up_def NewProxy_def newBackend_def newFrontend_def
      newApplication_def example_env_def example_config3_def start_def Let_def)

lemma three_up_nextBackend:
  "nextBackend (app (frontends (snd (new_netConn (socket 10) three_up)) 0))
     (snd (new_netConn (socket 10) three_up)) = Inr 0"
  by (simp add: nextBackend_def getConnCount_def three_up_fields)

lemma busy1_fields:
  "managers busy1 (Backend 0) = \<lparr>ctx = WithCancel Background, connections = [(11, Suc 0)], epoller = {11}\<rparr>"
  "managers busy1 (Backend (Suc 0)) = \<lparr>ctx = WithCancel Background, connections = [], epoller = {}\<rparr>"
  "managers busy1 (Backend 2) = \<lparr>ctx = WithCancel Background, connections = [], epoller = {}\<rparr>"
  "managers busy1 (Frontend 0) =
     \<lparr>ctx = WithCancel (WithCancel Background), connections = [(10, 0)], epoller = {10}\<rparr>"
  "active (backends busy1 0)"
  "active (backends busy1 (Suc 0))"
  "active (backends busy1 2)"
  "app (frontends busy1 0) = \<lparr>name = ''a'', bnds = [0, Suc 0, 2]\<rparr>"
  "cancelled busy1 = {}"
  "next_netConn busy1 = 5"
  "next_Conn busy1 = 2"
  "next_Once busy1 = Suc 0"
  "next_PipedConn busy1 = 2"
  unfolding busy1_def connect_def handleNewConnection_success [OF three_up_nextBackend]
  by (simp_all add: three_up_fields socket_def)

lemma busy1_nextBackend:
  "nextBackend (app (frontends (snd (new_netConn (socket 12) busy1)) 0))
     (snd (new_netConn (socket 12) busy1)) = Inr 2"
  by (simp add: nextBackend_def getConnCount_def busy1_fields)

lemma busy2_fields:
  "managers busy2 (Backend 0) = \<lparr>ctx = WithCancel Background, connections = [(11, Suc 0)], epoller = {11}\<rparr>"
  "managers busy2 (Backend (Suc 0)) = \<lparr>ctx = WithCancel Background, connections = [], epoller = {}\<rparr>"
  "managers busy2 (Backend 2) = \<lparr>ctx = WithCancel Background, connections = [(13, 3)], epoller = {13}\<rparr>"
  "managers busy2 (Frontend 0) =
     \<lparr>ctx = WithCancel (WithCancel Background), connections = [(10, 0), (12, 2)], epoller = {12, 10}\<rparr>"
  "active (backends busy2 0)"
  "active (backends busy2 (Suc 0))"
  "active (backends busy2 2)"
  "app (frontends busy2 0) = \<lparr>name = ''a'', bnds = [0, Suc 0, 2]\<rparr>"
  "cancelled busy2 = {}"
  "next_netConn busy2 = 7"
  "next_Conn busy2 = 4"
  "next_Once busy2 = 2"
  "next_PipedConn busy2 = 4"
  unfolding busy2_def connect_def handleNewConnection_success [OF busy1_nextBackend]
  by (simp_all add: busy1_fields socket_def)

lemma busy2_nextBackend:
  "nextBackend (app (frontends (snd (new_netConn (socket 14) busy2)) 0))
     (snd (new_netConn (socket 14) busy2)) = Inr (Suc 0)"
  by (simp add: nextBackend_def getConnCount_def busy2_fields)

lemma busy3_fields:
  "managers busy3 (Backend 0) = \<lparr>ctx = WithCancel Background, connections = [(11, Suc 0)], epoller = {11}\<rparr>"
  "managers busy3 (Backend (Suc 0)) = \<lparr>ctx = WithCancel Background, connections = [(15, 5)], epoller = {15}\<rparr>"
  "managers busy3 (Backend 2) = \<lparr>ctx = WithCancel Background, connections = [(13, 3)], epoller = {13}\<rparr>"
  "managers busy3 (Frontend 0) =
     \<lparr>ctx = WithCancel (WithCancel Background), connections = [(10, 0), (12, 2), (14, 4)], epoller = {14, 12, 10}\<rparr>"
  "active (backends busy3 0)"
  "active (backends busy3 (Suc 0))"
  "active (backends busy3 2)"
  "app (frontends busy3 0) = \<lparr>name = ''a'', bnds = [0, Suc 0, 2]\<rparr>"
  "cancelled busy3 = {}"
  "next_netConn busy3 = 9"
  "next_Conn busy3 = 6"
  "next_Once busy3 = 3"
  "next_PipedConn busy3 = 6"
  "PipedConns busy3 5 = \<lparr>conn = 4, pipeTo = 5, finalizeOnce = 2, underIO = False\<rparr>"
  "Conns busy3 4 = \<lparr>netconn = 8, fd = 15, closed = False, manager = Backend (Suc 0)\<rparr>"
  "Conns busy3 5 = \<lparr>netconn = 7, fd = 14, closed = False, manager = Frontend 0\<rparr>"
  "Onces busy3 2 = \<lparr>once_done = False, Do_calls = 0, Do_runs = 0\<rparr>"
  unfolding busy3_def connect_def handleNewConnection_success [OF busy2_nextBackend]
  by (simp_all add: busy2_fields socket_def)

lemma busy3_nextBackend:
  "nextBackend (app (frontends (snd (new_netConn (socket 16) busy3)) 0))
     (snd (new_netConn (socket 16) busy3)) = Inr 0"
  by (simp add: nextBackend_def getConnCount_def busy3_fields)

lemma busy4_fields:
  "managers busy4 (Backend 0) = \<lparr>ctx = WithCancel Background, connections = [(11, Suc 0), (17, 7)], epoller = {17, 11}\<rparr>"
  "managers busy4 (Backend (Suc 0)) = \<lparr>ctx = WithCancel Background, connections = [(15, 5)], epoller = {15}\<rparr>"
  "managers busy4 (Backend 2) = \<lparr>ctx = WithCancel Background, connections = [(13, 3)], epoller = {13}\<rparr>"
  "managers busy4 (Frontend 0) =
     \<lparr>ctx = WithCancel (WithCancel Background), connections = [(10, 0), (12, 2), (14, 4), (16, 6)], epoller = {16, 14, 12, 10}\<rparr>"
  "active (backends busy4 0)"
  "active (backends busy4 (Suc 0))"
  "active (backends busy4 2)"
  "app (frontends busy4 0) = \<lparr>name = ''a'', bnds = [0, Suc 0, 2]\<rparr>"
  "cancelled busy4 = {}"
  "next_netConn busy4 = 11"
  "next_Conn busy4 = 8"
  "next_Once busy4 = 4"
  "next_PipedConn busy4 = 8"
  "PipedConns busy4 5 = \<lparr>conn = 4, pipeTo = 5, finalizeOnce = 2, underIO = False\<rparr>"
  "Conns busy4 4 = \<lparr>netconn = 8, fd = 15, closed = False, manager = Backend (Suc 0)\<rparr>"
  "Conns busy4 5 = \<lparr>netconn = 7, fd = 14, closed = False, manager = Frontend 0\<rparr>"
  "Onces busy4 2 = \<lparr>once_done = False, Do_calls = 0, Do_runs = 0\<rparr>"
  unfolding busy4_def connect_def handleNewConnection_success [OF busy3_nextBackend]
  by (simp_all add: busy3_fields socket_def)

section \<open>Properties of the readiness notifier\<close>

lemma Wait_loop_temporary:
  "\<forall>e\<in>set es. temporaryErr e \<Longrightarrow> Wait_loop (map Failed es @ rest) events = Wait_loop rest events"
  by (induction es) (simp_all add: EpollWait_def)

lemma Wait_loop_Ready:
  "length events = 100 \<Longrightarrow> Wait_loop (Ready evs # rest) events = Some (Inr (take 100 evs))"
  by (simp add: EpollWait_def Let_def min_def)

lemma Wait_loop_length:
  "length events = 100 \<Longrightarrow> Wait_loop as events = Some (Inr evs) \<Longrightarrow> length evs \<le> 100"
proof (induction as)
  case Nil
  then show ?case by simp
next
  case (Cons a as)
  show ?case
  proof (cases a)
    case (Failed e)
    with Cons show ?thesis
      by (simp add: EpollWait_def split: if_splits)
  next
    case (Ready ready)
    with Cons show ?thesis
      by (auto simp: EpollWait_def Let_def min_def split: if_splits)
  qed
qed

text \<open>
  C9. \<open>Wait\<close> returns at most 100 event records. While the kernel answers with temporary
  errors (EINTR, EMFILE, ENFILE, EAGAIN, EWOULDBLOCK, ETIMEDOUT) the loop goes on and
  nothing is returned; the first other answer decides: ready events are returned (the
  first 100 of them), any other errno is returned wrapped as an error.
\<close>

theorem Wait_batch_retry_surface:
  assumes "\<forall>e\<in>set es. temporaryErr e"
  shows "Wait (map Failed es) = None \<and>
         Wait (map Failed es @ Ready evs # rest) = Some (Inr (take 100 evs)) \<and>
         length (take 100 evs) \<le> 100 \<and>
         (\<not> temporaryErr e' \<longrightarrow>
            Wait (map Failed es @ Failed e' # rest) = Some (Inl (Wrap (Errno e') ''EpollWait()''))) \<and>
         (Wait answers = Some (Inr batch) \<longrightarrow> length batch \<le> 100) \<and>
         (temporaryErr x \<longleftrightarrow> x \<in> {EINTR, EMFILE, ENFILE, EAGAIN, EWOULDBLOCK, ETIMEDOUT})"
proof -
  have none: "Wait (map Failed es) = None"
    using Wait_loop_temporary [OF assms, of "[]"] by (simp add: Wait_def)
  have ready: "Wait (map Failed es @ Ready evs # rest) = Some (Inr (take 100 evs))"
    unfolding Wait_def Wait_loop_temporary [OF assms] by (rule Wait_loop_Ready) simp
  have other: "Wait (map Failed es @ Failed e' # rest) = Some (Inl (Wrap (Errno e') ''EpollWait()''))"
    if "\<not> temporaryErr e'"
    unfolding Wait_def Wait_loop_temporary [OF assms] using that by (simp add: EpollWait_def)
  have bound: "length batch \<le> 100" if "Wait answers = Some (Inr batch)"
    using that unfolding Wait_def by (rule Wait_loop_length [rotated]) simp
  have temp: "temporaryErr x \<longleftrightarrow> x \<in> {EINTR, EMFILE, ENFILE, EAGAIN, EWOULDBLOCK, ETIMEDOUT}"
    by (auto simp: temporaryErr_def)
  from none ready other bound temp show ?thesis
    by simp
qed

theorem Wait_batch_retry_surface_witness:
  "temporaryErr EINTR \<and> temporaryErr EAGAIN \<and>
   Wait (map Failed [EINTR, EAGAIN]) = None \<and>
   Wait (map Failed [EINTR, EAGAIN] @ [Ready (replicate 130 \<lparr>Events = EPOLLIN, Fd = 7\<rparr>)])
     = Some (Inr (replicate 100 \<lparr>Events = EPOLLIN, Fd = 7\<rparr>)) \<and>
   \<not> temporaryErr 9 \<and>
   Wait (map Failed [EINTR, EAGAIN] @ [Failed 9]) = Some (Inl (Wrap (Errno 9) ''EpollWait()'')) \<and>
   temporaryErr ETIMEDOUT"
proof -
  have h: "\<forall>e\<in>set [EINTR, EAGAIN]. temporaryErr e"
    by (simp add: temporaryErr_def)
  have n: "\<not> temporaryErr 9"
    by (simp add: temporaryErr_def EINTR_def EMFILE_def ENFILE_def EAGAIN_def
        EWOULDBLOCK_def ETIMEDOUT_def)
  show ?thesis
    using h n
      Wait_batch_retry_surface [OF h, of "replicate 130 \<lparr>Events = EPOLLIN, Fd = 7\<rparr>" "[]" 9 "[]" "[]" ETIMEDOUT]
    by simp
qed

section \<open>Properties of Conn\<close>

lemma Close_again: "Close c (snd (Close c s)) = (None, snd (Close c s))"
  by (simp add: Close_def net_Close_def)

lemma Close_funpow: "((\<lambda>t. snd (Close c t)) ^^ Suc n) s = snd (Close c s)"
  by (induction n) (simp_all add: Close_again)

text \<open>
  C7. \<open>Conn.Close\<close> is idempotent. A second \<open>Close\<close> changes nothing and returns nil, so any
  number of calls, one or more, leaves the state that one call leaves. Only the call that
  finds \<open>closed\<close> false calls the \<open>Close\<close> of the embedded net.Conn and returns its result;
  however often \<open>Close\<close> is called, the embedded \<open>Close\<close> is called at most once.
\<close>

theorem Close_idempotent:
  "Close c (snd (Close c s)) = (None, snd (Close c s)) \<and>
   ((\<lambda>t. snd (Close c t)) ^^ Suc n) s = snd (Close c s) \<and>
   (closed (Conns s c) \<longrightarrow> Close c s = (None, s)) \<and>
   (\<not> closed (Conns s c) \<longrightarrow>
      fst (Close c s) = Close_result (netConns s (netconn (Conns s c))) \<and>
      closed (Conns (snd (Close c s)) c) \<and>
      Close_calls (netConns (((\<lambda>t. snd (Close c t)) ^^ Suc n) s) (netconn (Conns s c)))
        = Suc (Close_calls (netConns s (netconn (Conns s c))))) \<and>
   Close_calls (netConns (((\<lambda>t. snd (Close c t)) ^^ k) s) (netconn (Conns s c)))
     \<le> Suc (Close_calls (netConns s (netconn (Conns s c))))"
proof -
  have bound: "Close_calls (netConns (((\<lambda>t. snd (Close c t)) ^^ k) s) (netconn (Conns s c)))
     \<le> Suc (Close_calls (netConns s (netconn (Conns s c))))"
  proof (cases k)
    case 0
    then show ?thesis by simp
  next
    case (Suc j)
    show ?thesis
      unfolding Suc Close_funpow by simp
  qed
  have noop: "Close c s = (None, s)" if "closed (Conns s c)"
    using that by (simp add: Close_def)
  have first: "fst (Close c s) = Close_result (netConns s (netconn (Conns s c))) \<and>
      closed (Conns (snd (Close c s)) c) \<and>
      Close_calls (netConns (((\<lambda>t. snd (Close c t)) ^^ Suc n) s) (netconn (Conns s c)))
        = Suc (Close_calls (netConns s (netconn (Conns s c))))"
    if "\<not> closed (Conns s c)"
    unfolding Close_funpow using that by simp
  from bound noop first Close_again [of c s] Close_funpow [where c = c and n = n and s = s]
  show ?thesis
    by blast
qed

theorem Close_idempotent_witness:
  "\<not> closed (Conns tunnel_up 0) \<and>
   closed (Conns (snd (Close 0 tunnel_up)) 0) \<and>
   Close 0 (snd (Close 0 tunnel_up)) = (None, snd (Close 0 tunnel_up)) \<and>
   Close_calls (netConns (((\<lambda>t. snd (Close 0 t)) ^^ 3) tunnel_up) 2)
     = Suc (Close_calls (netConns tunnel_up 2))"
  using Close_idempotent [of 0 tunnel_up 2 0] Close_idempotent [of 0 "snd (Close 0 tunnel_up)" 0 0]
  by (simp add: tunnel_up_fields eval_nat_numeral)

section \<open>Properties of the connection managers\<close>

lemma hangup_mask:
  "(w AND (EPOLLHUP OR EPOLLRDHUP) \<noteq> 0) \<longleftrightarrow> (w AND EPOLLRDHUP \<noteq> 0 \<or> w AND EPOLLHUP \<noteq> 0)"
  for w :: "32 word"
  by (auto simp: bit.conj_disj_distrib or_eq_0_iff)

lemma serveEvent_absent:
  "getConnByFD m (sint (Fd event)) s = None \<Longrightarrow> serveEvent m event s = s"
  by (simp add: serveEvent_def)

lemma serveEvent_under_io:
  "getConnByFD m (sint (Fd event)) s = Some p \<Longrightarrow> underIO (PipedConns s p) \<Longrightarrow>
   serveEvent m event s = s"
  by (simp add: serveEvent_def setUnderIO_def)

lemma serveEvent_hangup:
  "getConnByFD m (sint (Fd event)) s = Some p \<Longrightarrow> \<not> underIO (PipedConns s p) \<Longrightarrow>
   Events event AND EPOLLRDHUP \<noteq> 0 \<or> Events event AND EPOLLHUP \<noteq> 0 \<Longrightarrow>
   serveEvent m event s = go (go_finalizeOnce p) (snd (setUnderIO p True s))"
  by (simp add: serveEvent_def setUnderIO_def hangup_mask)

lemma serveEvent_readable:
  "getConnByFD m (sint (Fd event)) s = Some p \<Longrightarrow> \<not> underIO (PipedConns s p) \<Longrightarrow>
   Events event AND EPOLLRDHUP = 0 \<Longrightarrow> Events event AND EPOLLHUP = 0 \<Longrightarrow>
   Events event AND EPOLLIN \<noteq> 0 \<Longrightarrow>
   serveEvent m event s = go (go_serveConn m p) (snd (setUnderIO p True s))"
  by (simp add: serveEvent_def setUnderIO_def hangup_mask)

lemma serveEvent_no_bits:
  "getConnByFD m (sint (Fd event)) s = Some p \<Longrightarrow> \<not> underIO (PipedConns s p) \<Longrightarrow>
   Events event AND EPOLLRDHUP = 0 \<Longrightarrow> Events event AND EPOLLHUP = 0 \<Longrightarrow>
   Events event AND EPOLLIN = 0 \<Longrightarrow>
   serveEvent m event s = snd (setUnderIO p True s)"
  by (simp add: serveEvent_def setUnderIO_def hangup_mask)

lemma serveEvents_under_io:
  "getConnByFD m d s = Some p \<Longrightarrow> underIO (PipedConns s p) \<Longrightarrow>
   \<forall>e\<in>set events. sint (Fd e) = d \<Longrightarrow> serveEvents m events s = s"
  by (induction events) (simp_all add: serveEvents_def serveEvent_under_io)

text \<open>
  C5. What \<open>serveEvent\<close> does with a readiness event. If no connection is mapped to the
  event's descriptor, or the connection's \<open>underIO\<close> was already set, the state is left
  as it was. Otherwise \<open>underIO\<close> is set, and if the mask has \<open>EPOLLRDHUP\<close> or
  \<open>EPOLLHUP\<close> the goroutine that runs the shared finalizer is the one goroutine
  started, whether or not \<open>EPOLLIN\<close> is in the mask too; with neither of the two bits
  and with \<open>EPOLLIN\<close>, the copying goroutine \<open>serveConn\<close> is the one started.
\<close>

theorem serveEvent_dispatch:
  "(getConnByFD m (sint (Fd event)) s = None \<longrightarrow> serveEvent m event s = s) \<and>
   (getConnByFD m (sint (Fd event)) s = Some p \<and> underIO (PipedConns s p) \<longrightarrow>
      serveEvent m event s = s) \<and>
   (getConnByFD m (sint (Fd event)) s = Some p \<and> \<not> underIO (PipedConns s p) \<and>
    (Events event AND EPOLLRDHUP \<noteq> 0 \<or> Events event AND EPOLLHUP \<noteq> 0) \<longrightarrow>
      serveEvent m event s = go (go_finalizeOnce p) (snd (setUnderIO p True s)) \<and>
      goroutines (serveEvent m event s) = goroutines s @ [go_finalizeOnce p]) \<and>
   (getConnByFD m (sint (Fd event)) s = Some p \<and> \<not> underIO (PipedConns s p) \<and>
    Events event AND EPOLLRDHUP = 0 \<and> Events event AND EPOLLHUP = 0 \<and>
    Events event AND EPOLLIN \<noteq> 0 \<longrightarrow>
      serveEvent m event s = go (go_serveConn m p) (snd (setUnderIO p True s)) \<and>
      goroutines (serveEvent m event s) = goroutines s @ [go_serveConn m p])"
proof (intro conjI impI)
  assume "getConnByFD m (sint (Fd event)) s = None"
  then show "serveEvent m event s = s"
    by (rule serveEvent_absent)
next
  assume "getConnByFD m (sint (Fd event)) s = Some p \<and> underIO (PipedConns s p)"
  then show "serveEvent m event s = s"
    by (simp add: serveEvent_under_io)
next
  assume h: "getConnByFD m (sint (Fd event)) s = Some p \<and> \<not> underIO (PipedConns s p) \<and>
    (Events event AND EPOLLRDHUP \<noteq> 0 \<or> Events event AND EPOLLHUP \<noteq> 0)"
  then show eq: "serveEvent m event s = go (go_finalizeOnce p) (snd (setUnderIO p True s))"
    by (simp add: serveEvent_hangup)
  show "goroutines (serveEvent m event s) = goroutines s @ [go_finalizeOnce p]"
    unfolding eq by simp
next
  assume h: "getConnByFD m (sint (Fd event)) s = Some p \<and> \<not> underIO (PipedConns s p) \<and>
    Events event AND EPOLLRDHUP = 0 \<and> Events event AND EPOLLHUP = 0 \<and>
    Events event AND EPOLLIN \<noteq> 0"
  then show eq: "serveEvent m event s = go (go_serveConn m p) (snd (setUnderIO p True s))"
    by (simp add: serveEvent_readable)
  show "goroutines (serveEvent m event s) = goroutines s @ [go_serveConn m p]"
    unfolding eq by simp
qed

lemma mask_values:
  "EPOLLIN AND EPOLLRDHUP = 0" "EPOLLIN AND EPOLLHUP = 0" "EPOLLIN AND EPOLLIN \<noteq> 0"
  "(EPOLLIN OR EPOLLRDHUP) AND EPOLLRDHUP \<noteq> 0"
  "(8 :: 32 word) AND EPOLLIN = 0" "(8 :: 32 word) AND EPOLLRDHUP = 0" "(8 :: 32 word) AND EPOLLHUP = 0"
  "EPOLLIN \<noteq> 0" "EPOLLRDHUP \<noteq> 0" "EPOLLHUP \<noteq> 0"
  by (simp_all add: EPOLLIN_def EPOLLRDHUP_def EPOLLHUP_def)

lemma tunnel_up_lookup:
  "getConnByFD (Frontend 0) 7 tunnel_up = Some 0"
  "getConnByFD (Frontend 0) 9 tunnel_up = None"
  by (simp_all add: getConnByFD_def tunnel_up_fields)

theorem serveEvent_dispatch_witness:
  "getConnByFD (Frontend 0) (sint (Fd \<lparr>Events = EPOLLIN, Fd = 9\<rparr>)) tunnel_up = None \<and>
   serveEvent (Frontend 0) \<lparr>Events = EPOLLIN, Fd = 9\<rparr> tunnel_up = tunnel_up \<and>
   getConnByFD (Frontend 0) (sint (Fd \<lparr>Events = EPOLLIN, Fd = 7\<rparr>)) tunnel_up = Some 0 \<and>
   \<not> underIO (PipedConns tunnel_up 0) \<and>
   goroutines (serveEvent (Frontend 0) \<lparr>Events = EPOLLIN, Fd = 7\<rparr> tunnel_up)
     = [go_serveConn (Frontend 0) 0] \<and>
   goroutines (serveEvent (Frontend 0) \<lparr>Events = EPOLLIN OR EPOLLRDHUP, Fd = 7\<rparr> tunnel_up)
     = [go_finalizeOnce 0] \<and>
   underIO (PipedConns (snd (setUnderIO 0 True tunnel_up)) 0) \<and>
   serveEvent (Frontend 0) \<lparr>Events = EPOLLIN OR EPOLLRDHUP, Fd = 7\<rparr> (snd (setUnderIO 0 True tunnel_up))
     = snd (setUnderIO 0 True tunnel_up)"
  using
    serveEvent_dispatch [of "Frontend 0" "\<lparr>Events = EPOLLIN, Fd = 9\<rparr>" tunnel_up 0]
    serveEvent_dispatch [of "Frontend 0" "\<lparr>Events = EPOLLIN, Fd = 7\<rparr>" tunnel_up 0]
    serveEvent_dispatch [of "Frontend 0" "\<lparr>Events = EPOLLIN OR EPOLLRDHUP, Fd = 7\<rparr>" tunnel_up 0]
    serveEvent_dispatch [of "Frontend 0" "\<lparr>Events = EPOLLIN OR EPOLLRDHUP, Fd = 7\<rparr>"
      "snd (setUnderIO 0 True tunnel_up)" 0]
  by (simp add: tunnel_up_lookup mask_values tunnel_up_fields getConnByFD_def)

text \<open>
  C10. For a registered connection whose \<open>underIO\<close> is clear, an event whose mask has
  none of \<open>EPOLLIN\<close>, \<open>EPOLLRDHUP\<close>, \<open>EPOLLHUP\<close> sets \<open>underIO\<close> and starts no
  goroutine: nothing is copied and nothing is finalized. \<open>underIO\<close> stays set, so every
  later event for that descriptor is dropped: serving any list of such events changes
  nothing.
\<close>

theorem serveEvent_unhandled_mask:
  assumes "getConnByFD m (sint (Fd event)) s = Some p"
    and "\<not> underIO (PipedConns s p)"
    and "Events event AND EPOLLIN = 0"
    and "Events event AND EPOLLRDHUP = 0"
    and "Events event AND EPOLLHUP = 0"
  shows "underIO (PipedConns (serveEvent m event s) p) \<and>
         goroutines (serveEvent m event s) = goroutines s \<and>
         Onces (serveEvent m event s) = Onces s \<and>
         managers (serveEvent m event s) = managers s \<and>
         Conns (serveEvent m event s) = Conns s \<and>
         ((\<forall>e\<in>set events. sint (Fd e) = sint (Fd event)) \<longrightarrow>
            serveEvents m events (serveEvent m event s) = serveEvent m event s)"
proof -
  have eq: "serveEvent m event s = snd (setUnderIO p True s)"
    using assms by (simp add: serveEvent_no_bits)
  have "getConnByFD m (sint (Fd event)) (snd (setUnderIO p True s)) = Some p"
    using assms(1) by (simp add: getConnByFD_def)
  moreover have "underIO (PipedConns (snd (setUnderIO p True s)) p)"
    by simp
  ultimately have "serveEvents m events (snd (setUnderIO p True s)) = snd (setUnderIO p True s)"
    if "\<forall>e\<in>set events. sint (Fd e) = sint (Fd event)"
    using that by (rule serveEvents_under_io)
  then show ?thesis
    unfolding eq by simp
qed

theorem serveEvent_unhandled_mask_witness:
  "getConnByFD (Frontend 0) (sint (Fd \<lparr>Events = 8, Fd = 7\<rparr>)) tunnel_up = Some 0 \<and>
   \<not> underIO (PipedConns tunnel_up 0) \<and>
   Events \<lparr>Events = 8, Fd = 7\<rparr> AND EPOLLIN = 0 \<and>
   Events \<lparr>Events = 8, Fd = 7\<rparr> AND EPOLLRDHUP = 0 \<and>
   Events \<lparr>Events = 8, Fd = 7\<rparr> AND EPOLLHUP = 0 \<and>
   underIO (PipedConns (serveEvent (Frontend 0) \<lparr>Events = 8, Fd = 7\<rparr> tunnel_up) 0) \<and>
   goroutines (serveEvent (Frontend 0) \<lparr>Events = 8, Fd = 7\<rparr> tunnel_up) = [] \<and>
   serveEvents (Frontend 0) [\<lparr>Events = EPOLLIN, Fd = 7\<rparr>, \<lparr>Events = EPOLLHUP, Fd = 7\<rparr>]
       (serveEvent (Frontend 0) \<lparr>Events = 8, Fd = 7\<rparr> tunnel_up)
     = serveEvent (Frontend 0) \<lparr>Events = 8, Fd = 7\<rparr> tunnel_up"
proof -
  have h: "getConnByFD (Frontend 0) (sint (Fd \<lparr>Events = 8, Fd = 7\<rparr>)) tunnel_up = Some 0"
    "\<not> underIO (PipedConns tunnel_up 0)"
    "Events \<lparr>Events = 8, Fd = 7\<rparr> AND EPOLLIN = 0"
    "Events \<lparr>Events = 8, Fd = 7\<rparr> AND EPOLLRDHUP = 0"
    "Events \<lparr>Events = 8, Fd = 7\<rparr> AND EPOLLHUP = 0"
    by (simp_all add: tunnel_up_lookup mask_values tunnel_up_fields)
  show ?thesis
    using h serveEvent_unhandled_mask [OF h,
        of "[\<lparr>Events = EPOLLIN, Fd = 7\<rparr>, \<lparr>Events = EPOLLHUP, Fd = 7\<rparr>]"]
    by (simp add: tunnel_up_fields)
qed



section \<open>Properties of the Half-Leg pair\<close>

lemma run_goroutine_once:
  assumes "Do_runs (Onces s k) = (if once_done (Onces s k) then 1 else 0)"
  shows "Do_runs (Onces (run_goroutine g copied s) k)
    = (if once_done (Onces (run_goroutine g copied s) k) then 1 else 0)"
  using assms by (cases g) (auto split: if_splits)

lemma run_goroutines_once:
  "Do_runs (Onces s k) = (if once_done (Onces s k) then 1 else 0) \<Longrightarrow>
   Do_runs (Onces (run_goroutines gs s) k)
    = (if once_done (Onces (run_goroutines gs s) k) then 1 else 0)"
proof (induction gs arbitrary: s)
  case Nil
  then show ?case by (simp add: run_goroutines_def)
next
  case (Cons g gs)
  obtain r copied where g: "g = (r, copied)"
    by (cases g)
  have "run_goroutines (g # gs) s = run_goroutines gs (run_goroutine r copied s)"
    by (simp add: run_goroutines_def g)
  with Cons.IH [OF run_goroutine_once [OF Cons.prems]] show ?case
    by simp
qed

lemma finalize_closes:
  "x = conn (PipedConns t p) \<or> x = pipeTo (PipedConns t p) \<Longrightarrow> closed (Conns (finalize p t) x)"
  by auto

lemma finalize_removes:
  assumes "x = conn (PipedConns t p) \<or> x = pipeTo (PipedConns t p)"
    and "\<not> ctx_Done (cancelled t) (ctx (managers t (manager (Conns t x))))"
  shows "getConnByFD (manager (Conns t x)) (fd (Conns t x)) (finalize p t) = None"
    and "fd (Conns t x) \<notin> epoller (managers (finalize p t) (manager (Conns t x)))"
  using assms by (auto simp: getConnByFD_def delete_conv')

lemma finalize_keeps_when_done:
  assumes "x = conn (PipedConns t p) \<or> x = pipeTo (PipedConns t p)"
    and "ctx_Done (cancelled t) (ctx (managers t (manager (Conns t x))))"
  shows "managers (finalize p t) (manager (Conns t x)) = managers t (manager (Conns t x))"
  using assms by auto

text \<open>
  C4, as amended. A pair of \<open>PipedConn\<close>s that \<open>handleNewConnection\<close> creates shares one
  \<open>sync.Once\<close>, each leg writes to the socket the other reads, and the legs belong to the
  frontend and to the chosen backend. However the goroutines of the process run, in
  whatever order and on whichever leg, \<open>finalize\<close> runs at most once through that once.
  When \<open>finalize\<close> runs on a leg it clears that leg's \<open>underIO\<close> and closes both sockets;
  each socket's descriptor is removed from its manager's map and epoll set unless that
  manager's context is done, in which case \<open>delConn\<close> leaves the manager as it was.
\<close>

theorem finalize_once_per_pair:
  fixes s :: state and f b nc :: nat and v :: netConn
  assumes "nextBackend (app (frontends s f)) s = Inr b"
  defines "s' \<equiv> handleNewConnection f nc (Inr v) s"
  shows
    "finalizeOnce (PipedConns s' (next_PipedConn s)) = next_Once s \<and>
     finalizeOnce (PipedConns s' (Suc (next_PipedConn s))) = next_Once s \<and>
     conn (PipedConns s' (next_PipedConn s)) = pipeTo (PipedConns s' (Suc (next_PipedConn s))) \<and>
     pipeTo (PipedConns s' (next_PipedConn s)) = conn (PipedConns s' (Suc (next_PipedConn s))) \<and>
     manager (Conns s' (conn (PipedConns s' (next_PipedConn s)))) = Frontend f \<and>
     manager (Conns s' (conn (PipedConns s' (Suc (next_PipedConn s))))) = Backend b \<and>
     Do_runs (Onces (run_goroutines gs s') (next_Once s)) \<le> 1 \<and>
     \<not> underIO (PipedConns (finalize p t) p) \<and>
     (x = conn (PipedConns t p) \<or> x = pipeTo (PipedConns t p) \<longrightarrow>
        closed (Conns (finalize p t) x) \<and>
        (if ctx_Done (cancelled t) (ctx (managers t (manager (Conns t x))))
         then managers (finalize p t) (manager (Conns t x)) = managers t (manager (Conns t x))
         else getConnByFD (manager (Conns t x)) (fd (Conns t x)) (finalize p t) = None \<and>
              fd (Conns t x) \<notin> epoller (managers (finalize p t) (manager (Conns t x)))))"
proof -
  note eq = handleNewConnection_success [OF assms(1), of nc v]
  have legs:
    "PipedConns s' (next_PipedConn s) =
       \<lparr>conn = Suc (next_Conn s), pipeTo = next_Conn s, finalizeOnce = next_Once s, underIO = False\<rparr>"
    "PipedConns s' (Suc (next_PipedConn s)) =
       \<lparr>conn = next_Conn s, pipeTo = Suc (next_Conn s), finalizeOnce = next_Once s, underIO = False\<rparr>"
    unfolding s'_def eq by simp_all
  have managers:
    "manager (Conns s' (Suc (next_Conn s))) = Frontend f"
    "manager (Conns s' (next_Conn s)) = Backend b"
    unfolding s'_def eq by simp_all
  have "Onces s' (next_Once s) = \<lparr>once_done = False, Do_calls = 0, Do_runs = 0\<rparr>"
    unfolding s'_def eq by simp
  then have "Do_runs (Onces s' (next_Once s)) = (if once_done (Onces s' (next_Once s)) then 1 else 0)"
    by simp
  then have "Do_runs (Onces (run_goroutines gs s') (next_Once s))
      = (if once_done (Onces (run_goroutines gs s') (next_Once s)) then 1 else 0)"
    by (rule run_goroutines_once)
  then have once: "Do_runs (Onces (run_goroutines gs s') (next_Once s)) \<le> 1"
    by simp
  have clear: "\<not> underIO (PipedConns (finalize p t) p)"
    by simp
  have effect: "closed (Conns (finalize p t) x) \<and>
        (if ctx_Done (cancelled t) (ctx (managers t (manager (Conns t x))))
         then managers (finalize p t) (manager (Conns t x)) = managers t (manager (Conns t x))
         else getConnByFD (manager (Conns t x)) (fd (Conns t x)) (finalize p t) = None \<and>
              fd (Conns t x) \<notin> epoller (managers (finalize p t) (manager (Conns t x))))"
    if "x = conn (PipedConns t p) \<or> x = pipeTo (PipedConns t p)"
  proof (cases "ctx_Done (cancelled t) (ctx (managers t (manager (Conns t x))))")
    case True
    show ?thesis
      unfolding if_P [OF True]
      by (intro conjI finalize_closes [OF that] finalize_keeps_when_done [OF that True])
  next
    case False
    show ?thesis
      unfolding if_not_P [OF False]
      by (intro conjI finalize_closes [OF that] finalize_removes [OF that False])
  qed
  have pair:
    "finalizeOnce (PipedConns s' (next_PipedConn s)) = next_Once s \<and>
     finalizeOnce (PipedConns s' (Suc (next_PipedConn s))) = next_Once s \<and>
     conn (PipedConns s' (next_PipedConn s)) = pipeTo (PipedConns s' (Suc (next_PipedConn s))) \<and>
     pipeTo (PipedConns s' (next_PipedConn s)) = conn (PipedConns s' (Suc (next_PipedConn s))) \<and>
     manager (Conns s' (conn (PipedConns s' (next_PipedConn s)))) = Frontend f \<and>
     manager (Conns s' (conn (PipedConns s' (Suc (next_PipedConn s))))) = Backend b"
    using legs managers by simp
  from pair once clear effect show ?thesis
    by blast
qed


theorem finalize_once_per_pair_witness:
  "nextBackend (app (frontends accepted 0)) accepted = Inr 0 \<and>
   finalizeOnce (PipedConns tunnel_up 0) = 0 \<and>
   finalizeOnce (PipedConns tunnel_up (Suc 0)) = 0 \<and>
   Do_runs (Onces (run_goroutines
       [(go_finalizeOnce 0, (0, None)), (go_serveConn (Backend 0) (Suc 0), (0, None))] tunnel_up) 0) \<le> 1 \<and>
   closed (Conns (finalize 0 tunnel_up) (Suc 0)) \<and>
   \<not> ctx_Done (cancelled tunnel_up) (ctx (managers tunnel_up (Frontend 0))) \<and>
   getConnByFD (Frontend 0) 7 (finalize 0 tunnel_up) = None \<and>
   7 \<notin> epoller (managers (finalize 0 tunnel_up) (Frontend 0)) \<and>
   ctx_Done (cancelled shut_down) (ctx (managers shut_down (Frontend 0))) \<and>
   managers (finalize 0 shut_down) (Frontend 0) = managers shut_down (Frontend 0)"
  using
    finalize_once_per_pair [OF accepted_nextBackend,
      where nc = "Suc 0" and v = "socket 8" and p = 0 and t = tunnel_up and x = "Suc 0"
        and gs = "[(go_finalizeOnce 0, (0, None)), (go_serveConn (Backend 0) (Suc 0), (0, None))]"]
    finalize_once_per_pair [OF accepted_nextBackend,
      where nc = "Suc 0" and v = "socket 8" and p = 0 and t = shut_down and x = "Suc 0"
        and gs = "[]"]
  by (simp add: tunnel_up_def [symmetric] accepted_fields accepted_nextBackend tunnel_up_fields
      shut_down_def)

text \<open>
  C4 as stated fails after cancellation: in \<open>shut_down\<close> the copy of the client's leg
  returns an error, \<open>finalize\<close> runs (once) and closes both sockets, and both descriptors
  are still in the maps of their managers.
\<close>

theorem finalize_after_cancel_keeps_fds:
  "ctx_Done (cancelled shut_down) (ctx (managers shut_down (Frontend 0))) \<and>
   ctx_Done (cancelled shut_down) (ctx (managers shut_down (Backend 0))) \<and>
   Do_runs (Onces (serveConn (Frontend 0) 0 (0, Some (NetError ''use of closed network connection'')) shut_down) 0) = 1 \<and>
   closed (Conns (serveConn (Frontend 0) 0 (0, Some (NetError ''use of closed network connection'')) shut_down) 0) \<and>
   closed (Conns (serveConn (Frontend 0) 0 (0, Some (NetError ''use of closed network connection'')) shut_down) (Suc 0)) \<and>
   getConnByFD (Frontend 0) 7
     (serveConn (Frontend 0) 0 (0, Some (NetError ''use of closed network connection'')) shut_down) = Some 0 \<and>
   getConnByFD (Backend 0) 8
     (serveConn (Frontend 0) 0 (0, Some (NetError ''use of closed network connection'')) shut_down) = Some (Suc 0)"
  by (simp add: shut_down_def tunnel_up_fields getConnByFD_def)

section \<open>Properties of the backend's health state\<close>

lemma newBackend_inactive:
  "newBackend env c address s = (Inr b, s') \<Longrightarrow> \<not> active (backends s' b)"
  by (auto simp: newBackend_def split: option.splits)

text \<open>
  C8, as amended. A backend is constructed inactive. After a health check (the one at
  start or the one of a tick) \<open>active\<close> is whether that dial succeeded. After a failed
  dial in \<open>createConn\<close> it is false; a successful dial in \<open>createConn\<close> leaves it as it
  was. The change of status is logged exactly when the stored value changes.
\<close>

theorem active_after_connect:
  "(newBackend env c address s0 = (Inr b', s') \<longrightarrow> \<not> active (backends s' b')) \<and>
   active (backends (healthcheck b dialled s) b) = (\<not> isl dialled) \<and>
   active (backends (snd (createConn b dialled s)) b) = (\<not> isl dialled \<and> active (backends s b)) \<and>
   status_log (healthcheck b dialled s) =
     (if active (backends s b) = (\<not> isl dialled) then status_log s
      else status_log s @ [(b, \<not> isl dialled)]) \<and>
   status_log (snd (createConn b dialled s)) =
     (if isl dialled \<and> active (backends s b) then status_log s @ [(b, False)] else status_log s) \<and>
   status_log (setActive b t s) =
     (if active (backends s b) = t then status_log s else status_log s @ [(b, t)])"
  using newBackend_inactive [of env c address s0 b' s'] by simp

lemma constructed_newBackend:
  "newBackend example_env (WithCancel Background) ''127.0.0.1:9001'' start
     = (Inr 0, snd (newBackend example_env (WithCancel Background) ''127.0.0.1:9001'' start))"
  by (simp add: newBackend_def example_env_def start_def)

theorem active_after_connect_witness:
  "newBackend example_env (WithCancel Background) ''127.0.0.1:9001'' start
     = (Inr 0, snd (newBackend example_env (WithCancel Background) ''127.0.0.1:9001'' start)) \<and>
   \<not> active (backends (snd (newBackend example_env (WithCancel Background) ''127.0.0.1:9001'' start)) 0) \<and>
   active (backends (healthcheck 0 (Inr (socket 5)) constructed) 0) \<and>
   status_log (healthcheck 0 (Inr (socket 5)) constructed) = [(0, True)] \<and>
   status_log (healthcheck 0 (Inr (socket 5)) proxy_up) = [(0, True)] \<and>
   \<not> active (backends (snd (createConn 0 (Inl (NetError ''connection refused'')) proxy_up)) 0) \<and>
   status_log (snd (createConn 0 (Inl (NetError ''connection refused'')) proxy_up)) = [(0, True), (0, False)] \<and>
   active (backends (snd (createConn 0 (Inr (socket 8)) proxy_up)) 0)"
  using
    active_after_connect [of example_env "WithCancel Background" "''127.0.0.1:9001''" start 0
      "snd (newBackend example_env (WithCancel Background) ''127.0.0.1:9001'' start)"
      0 "Inr (socket 5)" constructed True]
    active_after_connect [of example_env "WithCancel Background" "''127.0.0.1:9001''" start 0
      "snd (newBackend example_env (WithCancel Background) ''127.0.0.1:9001'' start)"
      0 "Inr (socket 5)" proxy_up True]
    active_after_connect [of example_env "WithCancel Background" "''127.0.0.1:9001''" start 0
      "snd (newBackend example_env (WithCancel Background) ''127.0.0.1:9001'' start)"
      0 "Inl (NetError ''connection refused'')" proxy_up True]
    active_after_connect [of example_env "WithCancel Background" "''127.0.0.1:9001''" start 0
      "snd (newBackend example_env (WithCancel Background) ''127.0.0.1:9001'' start)"
      0 "Inr (socket 8)" proxy_up True]
    constructed_newBackend
  by (simp add: proxy_up_fields constructed_fields)

text \<open>
  C8 as stated fails for a client's dial that succeeds: \<open>nextBackend\<close> has chosen the
  active backend, a health check then fails, and the dial of \<open>createConn\<close> succeeds;
  the most recent attempt succeeded and \<open>active\<close> is false.
\<close>

theorem successful_dial_leaves_inactive:
  "nextBackend (app (frontends proxy_up 0)) proxy_up = Inr 0 \<and>
   \<not> active (backends (healthcheck 0 (Inl (NetError ''i/o timeout'')) proxy_up) 0) \<and>
   fst (createConn 0 (Inr (socket 8)) (healthcheck 0 (Inl (NetError ''i/o timeout'')) proxy_up)) = Inr (Suc 0) \<and>
   \<not> active (backends
       (snd (createConn 0 (Inr (socket 8)) (healthcheck 0 (Inl (NetError ''i/o timeout'')) proxy_up))) 0)"
  by (simp add: nextBackend_def getConnCount_def proxy_up_fields)

section \<open>Where the code departs from its description\<close>

text \<open>
  C1 on \<open>skewed\<close>: the three backends are active and hold 2, 0 and 1 connections;
  \<open>nextBackend\<close> returns the third, which holds 1, not the second, which holds 0. The
  loop compares every later backend with the count of the first active one.
\<close>

theorem nextBackend_not_least:
  "active (backends skewed 0) \<and> active (backends skewed 1) \<and> active (backends skewed 2) \<and>
   bnds (app (frontends skewed 0)) = [0, 1, 2] \<and>
   getConnCount 0 skewed = 2 \<and> getConnCount 1 skewed = 0 \<and> getConnCount 2 skewed = 1 \<and>
   nextBackend (app (frontends skewed 0)) skewed = Inr 2"
  by (simp add: skewed_def nextBackend_def getConnCount_def busy4_fields)

text \<open>
  C2 on \<open>half_built\<close> after the signal: \<open>addConn\<close> finds the context done and closes the
  connection, and then inserts its descriptor into the map and adds it to the epoll set
  all the same.
\<close>

theorem addConn_after_cancel_inserts:
  "ctx_Done (cancelled (cancel (WithCancel Background) half_built))
     (ctx (managers (cancel (WithCancel Background) half_built) (Frontend 0))) \<and>
   conn (PipedConns half_built 0) = Suc 0 \<and>
   fd (Conns half_built (Suc 0)) = 7 \<and>
   getConnByFD (Frontend 0) 7 half_built = None \<and>
   closed (Conns (addConn (Frontend 0) 0 (cancel (WithCancel Background) half_built)) (Suc 0)) \<and>
   getConnByFD (Frontend 0) 7 (addConn (Frontend 0) 0 (cancel (WithCancel Background) half_built)) = Some 0 \<and>
   7 \<in> epoller (managers (addConn (Frontend 0) 0 (cancel (WithCancel Background) half_built)) (Frontend 0))"
  unfolding half_built_def createRemoteConnection_success [OF accepted_nextBackend]
  by (simp add: getConnByFD_def accepted_def proxy_up_fields socket_def)

text \<open>
  C3 on the example configuration: \<open>NewProxy\<close> gives the frontend the derived context and
  the backend the caller's context. Cancelling the proxy's context leaves the backend's
  context not done.
\<close>

theorem NewProxy_backend_not_cancelled:
  "fst (NewProxy example_env (WithCancel Background) example_config start) =
     Inr \<lparr>proxy_ctx = WithCancel (WithCancel Background),
          proxy_apps = [\<lparr>name = ''a'', bnds = [0]\<rparr>], proxy_fnds = [0], proxy_bnds = [0]\<rparr> \<and>
   ctx (managers constructed (Frontend 0)) = WithCancel (WithCancel Background) \<and>
   ctx (managers constructed (Backend 0)) = WithCancel Background \<and>
   ctx_Done (cancelled (cancel (WithCancel (WithCancel Background)) constructed))
     (ctx (managers (cancel (WithCancel (WithCancel Background)) constructed) (Frontend 0))) \<and>
   \<not> ctx_Done (cancelled (cancel (WithCancel (WithCancel Background)) constructed))
     (ctx (managers (cancel (WithCancel (WithCancel Background)) constructed) (Backend 0)))"
  by (simp add: constructed_fields)

end
